theory Spec2Isabelle
  imports Main "HOL-Library.Word"
begin

section \<open>The vendor runtime as seen from ApiController.cpp\<close>

text \<open>
  ApiController.cpp is a sequence of calls into the VimbaCPP library. The library is not
  part of the repository, so it is a parameter of every function below: a record of
  operations over a state \<open>'w\<close> of the library and of the attached devices.

  Status codes: the code only ever compares a status with \<open>VmbErrorSuccess\<close>; every
  other code of the vendor's enumeration is \<open>VmbErrorOther n\<close>.
\<close>

datatype VmbErrorType = VmbErrorSuccess | VmbErrorOther nat

type_synonym VmbInt64 = "64 word"
type_synonym CameraPtr = nat
type_synonym FeaturePtr = nat
type_synonym FramePtr = nat

text \<open>
  The observer class is declared outside the source file; StartUp only creates one and
  hands it to the library.
\<close>

datatype CameraObserver = CameraObserver

text \<open>
  Every library call returns a status and, where the C++ signature has an output
  parameter, the value for it. The caller's variable receives that value when the status
  is \<open>VmbErrorSuccess\<close> and is left as it was otherwise.

  \<open>OpenCameraByID\<close> is always called with \<open>VmbAccessModeFull\<close>; the two pixel
  format constants come from the vendor's headers and are taken as they are given.
\<close>

record 'w VimbaSystem =
  Startup :: "'w \<Rightarrow> (VmbErrorType \<times> unit) \<times> 'w"
  Shutdown :: "'w \<Rightarrow> (VmbErrorType \<times> unit) \<times> 'w"
  RegisterCameraListObserver :: "CameraObserver \<Rightarrow> 'w \<Rightarrow> (VmbErrorType \<times> unit) \<times> 'w"
  GetCameras :: "'w \<Rightarrow> (VmbErrorType \<times> CameraPtr list) \<times> 'w"
  OpenCameraByID :: "string \<Rightarrow> 'w \<Rightarrow> (VmbErrorType \<times> CameraPtr) \<times> 'w"
  GetFeatureByName :: "CameraPtr \<Rightarrow> string \<Rightarrow> 'w \<Rightarrow> (VmbErrorType \<times> FeaturePtr) \<times> 'w"
  RunCommand :: "FeaturePtr \<Rightarrow> 'w \<Rightarrow> (VmbErrorType \<times> unit) \<times> 'w"
  IsCommandDone :: "FeaturePtr \<Rightarrow> 'w \<Rightarrow> (VmbErrorType \<times> bool) \<times> 'w"
  GetValue :: "FeaturePtr \<Rightarrow> 'w \<Rightarrow> (VmbErrorType \<times> VmbInt64) \<times> 'w"
  SetValue :: "FeaturePtr \<Rightarrow> VmbInt64 \<Rightarrow> 'w \<Rightarrow> (VmbErrorType \<times> unit) \<times> 'w"
  Camera_AcquireSingleImage :: "CameraPtr \<Rightarrow> nat \<Rightarrow> 'w \<Rightarrow> (VmbErrorType \<times> FramePtr) \<times> 'w"
  Close :: "CameraPtr \<Rightarrow> 'w \<Rightarrow> (VmbErrorType \<times> unit) \<times> 'w"
  VmbPixelFormatRgb8 :: VmbInt64
  VmbPixelFormatMono8 :: VmbInt64

subsection \<open>The record of calls\<close>

text \<open>
  To speak about which calls a function makes, and in which order, the state threaded
  through the model carries the list of library calls made so far, each with its
  arguments, the status it returned and the value it delivered (none when it failed).
\<close>

datatype sdk_call =
    Call_Startup
  | Call_Shutdown
  | Call_RegisterCameraListObserver CameraObserver
  | Call_GetCameras
  | Call_OpenCameraByID string
  | Call_GetFeatureByName CameraPtr string
  | Call_RunCommand FeaturePtr
  | Call_IsCommandDone FeaturePtr
  | Call_GetValue FeaturePtr
  | Call_SetValue FeaturePtr VmbInt64
  | Call_AcquireSingleImage CameraPtr nat
  | Call_Close CameraPtr

datatype out =
    Out_None
  | Out_Cameras "CameraPtr list"
  | Out_Camera CameraPtr
  | Out_Feature FeaturePtr
  | Out_Bool bool
  | Out_Int64 VmbInt64
  | Out_Frame FramePtr

type_synonym entry = "sdk_call \<times> VmbErrorType \<times> out"

record 'w runtime =
  world :: 'w
  calls :: "entry list"

definition invoke ::
  "sdk_call \<Rightarrow> ('a \<Rightarrow> out) \<Rightarrow> ('w \<Rightarrow> (VmbErrorType \<times> 'a) \<times> 'w) \<Rightarrow> 'w runtime
     \<Rightarrow> (VmbErrorType \<times> 'a) \<times> 'w runtime" where
  "invoke c mk f rt =
     (case f (world rt) of
        ((res, x), w') \<Rightarrow>
          ((res, x),
           \<lparr>world = w',
            calls = calls rt @ [(c, res, if VmbErrorSuccess = res then mk x else Out_None)]\<rparr>))"

definition no_out :: "unit \<Rightarrow> out" where
  "no_out u = Out_None"

section \<open>The controller\<close>

text \<open>
  Modelled from the spec: the class declaration (ApiController.h) is not among the
  sources. The spec's data model lists the device reference and the "cached frame
  attributes: width, height, pixel format - mutable scalars cached on the controller";
  the source file reads and writes them as \<open>m_pCamera\<close>, \<open>m_nWidth\<close>, \<open>m_nHeight\<close>
  and \<open>m_nPixelFormat\<close>, and keeps the observer in \<open>m_pCameraObserver\<close>. The three
  attributes are filled by the integer \<open>GetValue\<close> of the library and narrowed by
  \<open>static_cast\<close> in the accessors, so they are 64-bit integers. \<open>m_system\<close> is the
  reference to the library singleton: the \<open>'w VimbaSystem\<close> argument together with the
  \<open>'w runtime\<close> state. \<open>m_pCamera\<close> is a shared pointer, \<open>None\<close> when null.
\<close>

record ApiController =
  m_pCamera :: "CameraPtr option"
  m_pCameraObserver :: "CameraObserver option"
  m_nWidth :: VmbInt64
  m_nHeight :: VmbInt64
  m_nPixelFormat :: VmbInt64

text \<open>
  The constructor (lines 45-49) binds \<open>m_system\<close> and nothing else. The shared pointer
  \<open>m_pCamera\<close> is default-constructed to null; the other fields are not written, so
  they keep what the object's storage \<open>mem\<close> held before.
\<close>

definition ApiController_ctor :: "ApiController \<Rightarrow> ApiController" where
  "ApiController_ctor mem = mem\<lparr>m_pCamera := None\<rparr>"

subsection \<open>StartUp (lines 75-90)\<close>

definition StartUp ::
  "'w VimbaSystem \<Rightarrow> ApiController \<times> 'w runtime \<Rightarrow> VmbErrorType \<times> ApiController \<times> 'w runtime" where
  "StartUp sdk s =
     (case s of (c, rt) \<Rightarrow>
      case invoke Call_Startup no_out (Startup sdk) rt of ((res, u), rt1) \<Rightarrow>
        if VmbErrorSuccess = res then
          (let c1 = c\<lparr>m_pCameraObserver := Some CameraObserver\<rparr> in
           case invoke (Call_RegisterCameraListObserver CameraObserver) no_out
                  (RegisterCameraListObserver sdk CameraObserver) rt1 of
             ((res, u), rt2) \<Rightarrow> (res, c1, rt2))
        else (res, c, rt1))"

subsection \<open>ShutDown (lines 95-99)\<close>

definition ShutDown :: "'w VimbaSystem \<Rightarrow> 'w runtime \<Rightarrow> 'w runtime" where
  "ShutDown sdk rt = snd (invoke Call_Shutdown no_out (Shutdown sdk) rt)"

subsection \<open>AcquireSingleImage (lines 115-182)\<close>

text \<open>
  \<open>rStrCameraID.c_str()\<close> hands the library a C string: it ends at the first NUL.
\<close>

definition c_str :: "string \<Rightarrow> string" where
  "c_str s = takeWhile (\<lambda>ch. ch \<noteq> CHR 0x00) s"

text \<open>
  The \<open>do ... while\<close> loop of lines 129-135. One round calls \<open>IsCommandDone\<close>; a
  non-success status leaves the loop (\<open>break\<close>), otherwise the loop goes round again as
  long as \<open>bIsCommandDone\<close> is false. Nothing bounds the number of rounds, so the loop
  is a partial function: \<open>None\<close> when it never leaves.
\<close>

partial_function (option) poll_IsCommandDone ::
  "'w VimbaSystem \<Rightarrow> FeaturePtr \<Rightarrow> 'w runtime \<Rightarrow> 'w runtime option" where
  "poll_IsCommandDone sdk pCommandFeature rt =
     (case invoke (Call_IsCommandDone pCommandFeature) Out_Bool
             (IsCommandDone sdk pCommandFeature) rt of
        ((res, bIsCommandDone), rt1) \<Rightarrow>
          if VmbErrorSuccess \<noteq> res then Some rt1
          else if False = bIsCommandDone then poll_IsCommandDone sdk pCommandFeature rt1
          else Some rt1)"

declare poll_IsCommandDone.simps [code]

text \<open>
  Lines 123-137: the packet size command. None of the three statuses is stored in
  \<open>res\<close>; the block only advances the state of the library.
\<close>

definition AdjustPacketSize :: "'w VimbaSystem \<Rightarrow> CameraPtr \<Rightarrow> 'w runtime \<Rightarrow> 'w runtime option" where
  "AdjustPacketSize sdk cam rt =
     (case invoke (Call_GetFeatureByName cam ''GVSPAdjustPacketSize'') Out_Feature
             (GetFeatureByName sdk cam ''GVSPAdjustPacketSize'') rt of
        ((r1, pCommandFeature), rt1) \<Rightarrow>
          if VmbErrorSuccess = r1 then
            (case invoke (Call_RunCommand pCommandFeature) no_out
                    (RunCommand sdk pCommandFeature) rt1 of
               ((r2, u), rt2) \<Rightarrow>
                 if VmbErrorSuccess = r2 then poll_IsCommandDone sdk pCommandFeature rt2
                 else Some rt2)
          else Some rt1)"

text \<open>
  Lines 138-177: width, height, pixel format and capture. The result is the final
  \<open>res\<close>, the controller, the frame stored in \<open>rpFrame\<close> (if any) and the state of the
  library. The status of the \<open>GetValue\<close> of line 150 is not assigned, so the test of
  line 151 reads the \<open>res\<close> of line 147 again; the status of the \<open>GetValue\<close> of line
  166 is not assigned either.
\<close>

definition ConfigureAndCapture ::
  "'w VimbaSystem \<Rightarrow> CameraPtr \<Rightarrow> ApiController \<times> 'w runtime
     \<Rightarrow> VmbErrorType \<times> ApiController \<times> FramePtr option \<times> 'w runtime" where
  "ConfigureAndCapture sdk cam s =
     (case s of (c, rt) \<Rightarrow>
      case invoke (Call_GetFeatureByName cam ''Width'') Out_Feature
             (GetFeatureByName sdk cam ''Width'') rt of ((res, fW), rt1) \<Rightarrow>
      if VmbErrorSuccess = res then
        (case invoke (Call_GetValue fW) Out_Int64 (GetValue sdk fW) rt1 of ((res, w), rt2) \<Rightarrow>
         if VmbErrorSuccess = res then
           (let c2 = c\<lparr>m_nWidth := w\<rparr> in
            case invoke (Call_GetFeatureByName cam ''Height'') Out_Feature
                   (GetFeatureByName sdk cam ''Height'') rt2 of ((res, fH), rt3) \<Rightarrow>
            if VmbErrorSuccess = res then
              (case invoke (Call_GetValue fH) Out_Int64 (GetValue sdk fH) rt3 of ((rh, h), rt4) \<Rightarrow>
               let c4 = (if VmbErrorSuccess = rh then c2\<lparr>m_nHeight := h\<rparr> else c2) in
               if VmbErrorSuccess = res then
                 (case invoke (Call_GetFeatureByName cam ''PixelFormat'') Out_Feature
                         (GetFeatureByName sdk cam ''PixelFormat'') rt4 of ((res, fP), rt5) \<Rightarrow>
                  if VmbErrorSuccess = res then
                    (case invoke (Call_SetValue fP (VmbPixelFormatRgb8 sdk)) no_out
                            (SetValue sdk fP (VmbPixelFormatRgb8 sdk)) rt5 of ((res, u), rt6) \<Rightarrow>
                     case (if VmbErrorSuccess \<noteq> res
                           then invoke (Call_SetValue fP (VmbPixelFormatMono8 sdk)) no_out
                                  (SetValue sdk fP (VmbPixelFormatMono8 sdk)) rt6
                           else ((res, u), rt6)) of ((res, u), rt7) \<Rightarrow>
                     case invoke (Call_GetValue fP) Out_Int64 (GetValue sdk fP) rt7 of ((rp, p), rt8) \<Rightarrow>
                     let c8 = (if VmbErrorSuccess = rp then c4\<lparr>m_nPixelFormat := p\<rparr> else c4) in
                     if VmbErrorSuccess = res then
                       (case invoke (Call_AcquireSingleImage cam 2000) Out_Frame
                               (Camera_AcquireSingleImage sdk cam 2000) rt8 of ((res, fr), rt9) \<Rightarrow>
                        (res, c8, (if VmbErrorSuccess = res then Some fr else None), rt9))
                     else (res, c8, None, rt8))
                  else (res, c4, None, rt5))
               else (res, c4, None, rt4))
            else (res, c2, None, rt3))
         else (res, c, None, rt2))
      else (res, c, None, rt1))"

text \<open>
  The whole function. \<open>Close\<close> is called on the opened camera after the configuration
  block, whatever \<open>res\<close> is, and its own status is dropped. When the open fails nothing
  else is called. The result is \<open>None\<close> when the polling loop never leaves.
\<close>

definition AcquireSingleImage ::
  "'w VimbaSystem \<Rightarrow> string \<Rightarrow> ApiController \<times> 'w runtime
     \<Rightarrow> (VmbErrorType \<times> ApiController \<times> FramePtr option \<times> 'w runtime) option" where
  "AcquireSingleImage sdk rStrCameraID s =
     (case s of (c, rt) \<Rightarrow>
      case invoke (Call_OpenCameraByID (c_str rStrCameraID)) Out_Camera
             (OpenCameraByID sdk (c_str rStrCameraID)) rt of ((res, cam), rt1) \<Rightarrow>
      if VmbErrorSuccess = res then
        (let c1 = c\<lparr>m_pCamera := Some cam\<rparr> in
         case AdjustPacketSize sdk cam rt1 of
           None \<Rightarrow> None
         | Some rt2 \<Rightarrow>
             (case ConfigureAndCapture sdk cam (c1, rt2) of (res, c3, fr, rt3) \<Rightarrow>
              Some (res, c3, fr, snd (invoke (Call_Close cam) no_out (Close sdk cam) rt3))))
      else Some (res, c, None, rt1))"

subsection \<open>GetCameraList (lines 191-201)\<close>

definition GetCameraList :: "'w VimbaSystem \<Rightarrow> 'w runtime \<Rightarrow> CameraPtr list \<times> 'w runtime" where
  "GetCameraList sdk rt =
     (case invoke Call_GetCameras Out_Cameras (GetCameras sdk) rt of
        ((res, cameras), rt1) \<Rightarrow>
          if VmbErrorSuccess = res then (cameras, rt1) else ([], rt1))"

subsection \<open>Accessors (lines 209-234)\<close>

text \<open>
  \<open>static_cast<int>\<close> of a 64-bit value keeps the low 32 bits; the pixel format is cast
  to the 32-bit enumeration the same way.
\<close>

definition GetWidth :: "ApiController \<Rightarrow> 32 word" where
  "GetWidth c = ucast (m_nWidth c)"

definition GetHeight :: "ApiController \<Rightarrow> 32 word" where
  "GetHeight c = ucast (m_nHeight c)"

definition GetPixelFormat :: "ApiController \<Rightarrow> 32 word" where
  "GetPixelFormat c = ucast (m_nPixelFormat c)"

section \<open>Reading the record of calls\<close>


fun is_format_lookup :: "sdk_call \<Rightarrow> bool" where
  "is_format_lookup (Call_GetFeatureByName cam n) = (n = ''PixelFormat'')"
| "is_format_lookup c = False"

fun is_packet_call :: "sdk_call \<Rightarrow> bool" where
  "is_packet_call (Call_GetFeatureByName cam n) = (n = ''GVSPAdjustPacketSize'')"
| "is_packet_call (Call_RunCommand f) = True"
| "is_packet_call (Call_IsCommandDone f) = True"
| "is_packet_call c = False"

section \<open>A simulated library\<close>

text \<open>
  Concrete inputs for the theorems: a library with one camera whose replies are fixed by a
  \<open>camera_sim\<close>. The state counts the \<open>IsCommandDone\<close> polls and holds the pixel
  format last accepted; feature handles are 0 (packet size), 1 (Width), 2 (Height) and
  3 (PixelFormat).
\<close>

record sim_world =
  polls :: nat
  format :: VmbInt64

record camera_sim =
  sim_startup :: VmbErrorType
  sim_register :: VmbErrorType
  sim_cameras :: "VmbErrorType \<times> CameraPtr list"
  sim_open :: VmbErrorType
  sim_feature :: "string \<Rightarrow> VmbErrorType"
  sim_run :: VmbErrorType
  sim_poll :: "nat \<Rightarrow> VmbErrorType \<times> bool"
  sim_read :: "FeaturePtr \<Rightarrow> VmbErrorType"
  sim_width :: VmbInt64
  sim_height :: VmbInt64
  sim_write :: "VmbInt64 \<Rightarrow> VmbErrorType"
  sim_capture :: VmbErrorType

definition feature_of :: "string \<Rightarrow> FeaturePtr" where
  "feature_of n =
     (if n = ''GVSPAdjustPacketSize'' then 0 else if n = ''Width'' then 1
      else if n = ''Height'' then 2 else if n = ''PixelFormat'' then 3 else 4)"

definition simulate :: "camera_sim \<Rightarrow> sim_world VimbaSystem" where
  "simulate d =
     \<lparr>Startup = (\<lambda>w. ((sim_startup d, ()), w)),
      Shutdown = (\<lambda>w. ((VmbErrorSuccess, ()), w)),
      RegisterCameraListObserver = (\<lambda>obs w. ((sim_register d, ()), w)),
      GetCameras = (\<lambda>w. (sim_cameras d, w)),
      OpenCameraByID = (\<lambda>name w. ((sim_open d, 7), w)),
      GetFeatureByName = (\<lambda>cam n w. ((sim_feature d n, feature_of n), w)),
      RunCommand = (\<lambda>f w. ((sim_run d, ()), w)),
      IsCommandDone = (\<lambda>f w. (sim_poll d (polls w), w\<lparr>polls := Suc (polls w)\<rparr>)),
      GetValue = (\<lambda>f w. ((sim_read d f,
                     if f = 1 then sim_width d else if f = 2 then sim_height d else format w), w)),
      SetValue = (\<lambda>f v w. ((sim_write d v, ()),
                     if sim_write d v = VmbErrorSuccess then w\<lparr>format := v\<rparr> else w)),
      Camera_AcquireSingleImage = (\<lambda>cam t w. ((sim_capture d, 1), w)),
      Close = (\<lambda>cam w. ((VmbErrorSuccess, ()), w)),
      VmbPixelFormatRgb8 = 0x02180014,
      VmbPixelFormatMono8 = 0x01080001\<rparr>"

definition healthy :: camera_sim where
  "healthy =
     \<lparr>sim_startup = VmbErrorSuccess, sim_register = VmbErrorSuccess,
      sim_cameras = (VmbErrorSuccess, [7]),
      sim_open = VmbErrorSuccess, sim_feature = (\<lambda>n. VmbErrorSuccess),
      sim_run = VmbErrorSuccess, sim_poll = (\<lambda>n. (VmbErrorSuccess, 1 \<le> n)),
      sim_read = (\<lambda>f. VmbErrorSuccess), sim_width = 640, sim_height = 480,
      sim_write = (\<lambda>v. VmbErrorSuccess), sim_capture = VmbErrorSuccess\<rparr>"

definition rt0 :: "sim_world runtime" where
  "rt0 = \<lparr>world = \<lparr>polls = 0, format = 0\<rparr>, calls = []\<rparr>"

definition mem0 :: ApiController where
  "mem0 = \<lparr>m_pCamera = None, m_pCameraObserver = None, m_nWidth = 0, m_nHeight = 0, m_nPixelFormat = 0\<rparr>"

text \<open>
  Variations: a camera whose Height feature cannot be read, one whose packet size command
  never completes, a library that does not know the identifier, a camera whose capture
  fails, one whose pixel format cannot be read back, one that accepts only Mono8, and one
  without the packet size command (any camera that is not a GigE camera).
\<close>

definition height_unreadable :: camera_sim where
  "height_unreadable =
     healthy\<lparr>sim_read := (\<lambda>f. if f = 2 then VmbErrorOther 13 else VmbErrorSuccess)\<rparr>"

definition never_done :: camera_sim where
  "never_done = healthy\<lparr>sim_poll := (\<lambda>n. (VmbErrorSuccess, False))\<rparr>"

definition unknown_id :: camera_sim where
  "unknown_id = healthy\<lparr>sim_open := VmbErrorOther 3\<rparr>"

definition capture_fails :: camera_sim where
  "capture_fails = healthy\<lparr>sim_capture := VmbErrorOther 11\<rparr>"

definition readback_fails :: camera_sim where
  "readback_fails =
     healthy\<lparr>sim_read := (\<lambda>f. if f = 3 then VmbErrorOther 12 else VmbErrorSuccess)\<rparr>"

definition mono_only :: camera_sim where
  "mono_only =
     healthy\<lparr>sim_write := (\<lambda>v. if v = 0x01080001 then VmbErrorSuccess else VmbErrorOther 4)\<rparr>"




text \<open>
  The calls the simulated cameras record: opening and adjusting the packet size, reading
  width and height, and the complete records of two of the runs used below.
\<close>

definition calls_open_adjust :: "entry list" where
  "calls_open_adjust =
     [(Call_OpenCameraByID ''DEV_1'', VmbErrorSuccess, Out_Camera 7),
      (Call_GetFeatureByName 7 ''GVSPAdjustPacketSize'', VmbErrorSuccess, Out_Feature 0),
      (Call_RunCommand 0, VmbErrorSuccess, Out_None),
      (Call_IsCommandDone 0, VmbErrorSuccess, Out_Bool False),
      (Call_IsCommandDone 0, VmbErrorSuccess, Out_Bool True)]"

definition calls_size :: "entry list" where
  "calls_size =
     [(Call_GetFeatureByName 7 ''Width'', VmbErrorSuccess, Out_Feature 1),
      (Call_GetValue 1, VmbErrorSuccess, Out_Int64 640),
      (Call_GetFeatureByName 7 ''Height'', VmbErrorSuccess, Out_Feature 2),
      (Call_GetValue 2, VmbErrorSuccess, Out_Int64 480)]"

definition calls_capture_fails :: "entry list" where
  "calls_capture_fails =
     calls_open_adjust @ calls_size @
     [(Call_GetFeatureByName 7 ''PixelFormat'', VmbErrorSuccess, Out_Feature 3),
      (Call_SetValue 3 0x02180014, VmbErrorSuccess, Out_None),
      (Call_GetValue 3, VmbErrorSuccess, Out_Int64 0x02180014),
      (Call_AcquireSingleImage 7 2000, VmbErrorOther 11, Out_None),
      (Call_Close 7, VmbErrorSuccess, Out_None)]"

definition calls_mono_only :: "entry list" where
  "calls_mono_only =
     calls_open_adjust @ calls_size @
     [(Call_GetFeatureByName 7 ''PixelFormat'', VmbErrorSuccess, Out_Feature 3),
      (Call_SetValue 3 0x02180014, VmbErrorOther 4, Out_None),
      (Call_SetValue 3 0x01080001, VmbErrorSuccess, Out_None),
      (Call_GetValue 3, VmbErrorSuccess, Out_Int64 0x01080001),
      (Call_AcquireSingleImage 7 2000, VmbErrorSuccess, Out_Frame 1),
      (Call_Close 7, VmbErrorSuccess, Out_None)]"

section \<open>States of the library during the polling loop\<close>


section \<open>Using a controller\<close>

text \<open>
  A controller is used by calling its member functions one after another. \<open>serve\<close>
  runs one of them and reports the status of an acquisition (\<open>None\<close> for the other
  functions); \<open>use_without_success\<close> runs a sequence of them from a given state and
  gives the state reached when every call returned and no acquisition returned
  \<open>VmbErrorSuccess\<close>.

  \<open>delivered n v evs\<close> reads a record of calls: some lookup of the feature named
  \<open>n\<close> succeeded and a read of the feature it gave succeeded with the value \<open>v\<close>.
\<close>

datatype request =
    Req_StartUp
  | Req_ShutDown
  | Req_GetCameraList
  | Req_AcquireSingleImage string

fun serve ::
  "'w VimbaSystem \<Rightarrow> request \<Rightarrow> ApiController \<times> 'w runtime
     \<Rightarrow> (VmbErrorType option \<times> ApiController \<times> 'w runtime) option" where
  "serve sdk Req_StartUp s = (case StartUp sdk s of (res, c', rt') \<Rightarrow> Some (None, c', rt'))"
| "serve sdk Req_ShutDown s = (case s of (c, rt) \<Rightarrow> Some (None, c, ShutDown sdk rt))"
| "serve sdk Req_GetCameraList s = (case s of (c, rt) \<Rightarrow> Some (None, c, snd (GetCameraList sdk rt)))"
| "serve sdk (Req_AcquireSingleImage rStrCameraID) s =
     (case AcquireSingleImage sdk rStrCameraID s of
        None \<Rightarrow> None
      | Some (res, c', fr, rt') \<Rightarrow> Some (Some res, c', rt'))"

fun use_without_success ::
  "'w VimbaSystem \<Rightarrow> request list \<Rightarrow> ApiController \<times> 'w runtime
     \<Rightarrow> (ApiController \<times> 'w runtime) option" where
  "use_without_success sdk [] s = Some s"
| "use_without_success sdk (r # rs) s =
     (case serve sdk r s of
        None \<Rightarrow> None
      | Some (st, s') \<Rightarrow>
          if st = Some VmbErrorSuccess then None else use_without_success sdk rs s')"

definition delivered :: "string \<Rightarrow> VmbInt64 \<Rightarrow> entry list \<Rightarrow> bool" where
  "delivered n v evs =
     (\<exists>cam f. (Call_GetFeatureByName cam n, VmbErrorSuccess, Out_Feature f) \<in> set evs
           \<and> (Call_GetValue f, VmbErrorSuccess, Out_Int64 v) \<in> set evs)"

definition kept_or_delivered :: "ApiController \<Rightarrow> ApiController \<Rightarrow> entry list \<Rightarrow> bool" where
  "kept_or_delivered c c' evs =
     ((m_nWidth c' = m_nWidth c \<or> delivered ''Width'' (m_nWidth c') evs)
     \<and> (m_nHeight c' = m_nHeight c \<or> delivered ''Height'' (m_nHeight c') evs)
     \<and> (m_nPixelFormat c' = m_nPixelFormat c \<or> delivered ''PixelFormat'' (m_nPixelFormat c') evs))"

section \<open>Calls made by the packet size block\<close>

lemma invoke_calls:
  "invoke call mk f rt = ((res, x), rt') \<Longrightarrow>
     calls rt' = calls rt @ [(call, res, if VmbErrorSuccess = res then mk x else Out_None)]"
  by (auto simp: invoke_def split: prod.splits)

lemma poll_calls:
  assumes "poll_IsCommandDone sdk f rt = Some rt'"
  shows "\<exists>pk r b. calls rt' = calls rt @ pk @ [(Call_IsCommandDone f, r, if VmbErrorSuccess = r then Out_Bool b else Out_None)]
           \<and> (r \<noteq> VmbErrorSuccess \<or> b)
           \<and> (\<forall>e\<in>set pk. e = (Call_IsCommandDone f, VmbErrorSuccess, Out_Bool False))"
  using assms
proof (induction rule: poll_IsCommandDone.raw_induct [rotated 1, consumes 1, case_names step])
  case (step poll sdk f rt rt')
  obtain res b rt1 where inv: "invoke (Call_IsCommandDone f) Out_Bool (IsCommandDone sdk f) rt = ((res, b), rt1)"
    by (metis prod.exhaust)
  note c1 = invoke_calls [OF inv]
  show ?case
  proof (cases "res = VmbErrorSuccess \<and> \<not> b")
    case True
    with step(2) inv have "poll sdk f rt1 = Some rt'" by simp
    from step(1) [OF this] obtain pk r b' where
      "calls rt' = calls rt1 @ pk @ [(Call_IsCommandDone f, r, if VmbErrorSuccess = r then Out_Bool b' else Out_None)]"
      "r \<noteq> VmbErrorSuccess \<or> b'"
      "\<forall>e\<in>set pk. e = (Call_IsCommandDone f, VmbErrorSuccess, Out_Bool False)"
      by blast
    with c1 True have
      "calls rt' = calls rt @ ((Call_IsCommandDone f, VmbErrorSuccess, Out_Bool False) # pk) @
          [(Call_IsCommandDone f, r, if VmbErrorSuccess = r then Out_Bool b' else Out_None)]
       \<and> (r \<noteq> VmbErrorSuccess \<or> b')
       \<and> (\<forall>e\<in>set ((Call_IsCommandDone f, VmbErrorSuccess, Out_Bool False) # pk).
             e = (Call_IsCommandDone f, VmbErrorSuccess, Out_Bool False))"
      by simp
    then show ?thesis by blast
  next
    case False
    with step(2) inv have "rt' = rt1" by (auto split: if_splits)
    with c1 False have
      "calls rt' = calls rt @ [] @ [(Call_IsCommandDone f, res, if VmbErrorSuccess = res then Out_Bool b else Out_None)]
       \<and> (res \<noteq> VmbErrorSuccess \<or> b)
       \<and> (\<forall>e\<in>set []. e = (Call_IsCommandDone f, VmbErrorSuccess, Out_Bool False))"
      by auto
    then show ?thesis by blast
  qed
qed

lemma poll_never_done:
  assumes "poll_IsCommandDone sdk f rt = Some rt'"
    and "\<forall>w. fst (IsCommandDone sdk f w) = (VmbErrorSuccess, False)"
  shows False
  using assms
proof (induction rule: poll_IsCommandDone.raw_induct [rotated 1, consumes 1, case_names step])
  case (step poll sdk f rt rt')
  from step(3) have "fst (IsCommandDone sdk f (world rt)) = (VmbErrorSuccess, False)" by blast
  then obtain w' where "IsCommandDone sdk f (world rt) = ((VmbErrorSuccess, False), w')"
    by (metis prod.collapse)
  with step(2) obtain rt1 where "poll sdk f rt1 = Some rt'"
    by (simp add: invoke_def)
  from step(1) [OF this step(3)] show ?case .
qed

lemma AdjustPacketSize_calls:
  assumes "AdjustPacketSize sdk cam rt = Some rt'"
  shows "\<exists>pk. calls rt' = calls rt @ pk \<and> (\<forall>e\<in>set pk. is_packet_call (fst e))"
proof -
  obtain r1 f rt1 where i1: "invoke (Call_GetFeatureByName cam ''GVSPAdjustPacketSize'') Out_Feature
             (GetFeatureByName sdk cam ''GVSPAdjustPacketSize'') rt = ((r1, f), rt1)"
    by (metis prod.exhaust)
  note c1 = invoke_calls [OF i1]
  show ?thesis
  proof (cases "r1 = VmbErrorSuccess")
    case False
    with assms i1 have "rt' = rt1" by (simp add: AdjustPacketSize_def)
    with c1 show ?thesis by simp
  next
    case True
    obtain r2 u rt2 where i2: "invoke (Call_RunCommand f) no_out (RunCommand sdk f) rt1 = ((r2, u), rt2)"
      by (metis prod.exhaust)
    note c2 = invoke_calls [OF i2]
    show ?thesis
    proof (cases "r2 = VmbErrorSuccess")
      case False
      with assms i1 i2 True have "rt' = rt2" by (simp add: AdjustPacketSize_def)
      with c1 c2 show ?thesis by simp
    next
      case r2: True
      with assms i1 i2 True have "poll_IsCommandDone sdk f rt2 = Some rt'"
        by (simp add: AdjustPacketSize_def)
      from poll_calls [OF this] obtain pk e where
        "calls rt' = calls rt2 @ pk @ [e]" "fst e = Call_IsCommandDone f"
        "\<forall>e\<in>set pk. e = (Call_IsCommandDone f, VmbErrorSuccess, Out_Bool False)"
        by fastforce
      with c1 c2 show ?thesis by auto
    qed
  qed
qed

section \<open>When the packet size block ends\<close>







section \<open>Calls made by the configuration block\<close>

text \<open>
  The nine library calls of lines 140-171 in order, with the result of the block in terms
  of their statuses. The Mono8 call counts only when RGB8 was rejected.
\<close>

lemma invoke_cases:
  obtains res x rt' where "invoke call mk f rt = ((res, x), rt')"
    and "calls rt' = calls rt @ [(call, res, if VmbErrorSuccess = res then mk x else Out_None)]"
  by (metis invoke_calls prod.exhaust)

lemma ConfigureAndCapture_steps:
  obtains r1 fW rt1 r2 w rt2 r3 fH rt3 r4 h rt4 r5 fP rt5 r6 rt6 r7 rt7 r8 p rt8 r9 frame rt9
  where
    "calls rt1 = calls rt @ [(Call_GetFeatureByName cam ''Width'', r1,
        if VmbErrorSuccess = r1 then Out_Feature fW else Out_None)]"
    "calls rt2 = calls rt1 @ [(Call_GetValue fW, r2,
        if VmbErrorSuccess = r2 then Out_Int64 w else Out_None)]"
    "calls rt3 = calls rt2 @ [(Call_GetFeatureByName cam ''Height'', r3,
        if VmbErrorSuccess = r3 then Out_Feature fH else Out_None)]"
    "calls (rt4 :: 'w runtime) = calls rt3 @ [(Call_GetValue fH, r4,
        if VmbErrorSuccess = r4 then Out_Int64 h else Out_None)]"
    "calls rt5 = calls rt4 @ [(Call_GetFeatureByName cam ''PixelFormat'', r5,
        if VmbErrorSuccess = r5 then Out_Feature fP else Out_None)]"
    "calls (rt6 :: 'w runtime) = calls rt5 @ [(Call_SetValue fP (VmbPixelFormatRgb8 sdk), r6, Out_None)]"
    "calls (rt7 :: 'w runtime) = calls rt6 @ [(Call_SetValue fP (VmbPixelFormatMono8 sdk), r7, Out_None)]"
    "calls rt8 = calls (if VmbErrorSuccess = r6 then rt6 else rt7) @ [(Call_GetValue fP, r8,
        if VmbErrorSuccess = r8 then Out_Int64 p else Out_None)]"
    "calls rt9 = calls rt8 @ [(Call_AcquireSingleImage cam 2000, r9,
        if VmbErrorSuccess = r9 then Out_Frame frame else Out_None)]"
    "ConfigureAndCapture (sdk :: 'w VimbaSystem) cam (c, rt) =
       (if VmbErrorSuccess \<noteq> r1 then (r1, c, None, rt1)
        else if VmbErrorSuccess \<noteq> r2 then (r2, c, None, rt2)
        else if VmbErrorSuccess \<noteq> r3 then (r3, c\<lparr>m_nWidth := w\<rparr>, None, rt3)
        else let c4 = (if VmbErrorSuccess = r4 then c\<lparr>m_nWidth := w, m_nHeight := h\<rparr>
                       else c\<lparr>m_nWidth := w\<rparr>) in
        if VmbErrorSuccess \<noteq> r5 then (r5, c4, None, rt5)
        else let res = (if VmbErrorSuccess = r6 then r6 else r7);
                 c8 = (if VmbErrorSuccess = r8 then c4\<lparr>m_nPixelFormat := p\<rparr> else c4) in
        if VmbErrorSuccess \<noteq> res then (res, c8, None, rt8)
        else (r9, c8, if VmbErrorSuccess = r9 then Some frame else None, rt9))"
proof -
  obtain r1 fW rt1 where i1: "invoke (Call_GetFeatureByName cam ''Width'') Out_Feature
      (GetFeatureByName sdk cam ''Width'') rt = ((r1, fW), rt1)"
    and c1: "calls rt1 = calls rt @ [(Call_GetFeatureByName cam ''Width'', r1,
        if VmbErrorSuccess = r1 then Out_Feature fW else Out_None)]"
    by (rule invoke_cases)
  obtain r2 w rt2 where i2: "invoke (Call_GetValue fW) Out_Int64 (GetValue sdk fW) rt1 = ((r2, w), rt2)"
    and c2: "calls rt2 = calls rt1 @ [(Call_GetValue fW, r2,
        if VmbErrorSuccess = r2 then Out_Int64 w else Out_None)]"
    by (rule invoke_cases)
  obtain r3 fH rt3 where i3: "invoke (Call_GetFeatureByName cam ''Height'') Out_Feature
      (GetFeatureByName sdk cam ''Height'') rt2 = ((r3, fH), rt3)"
    and c3: "calls rt3 = calls rt2 @ [(Call_GetFeatureByName cam ''Height'', r3,
        if VmbErrorSuccess = r3 then Out_Feature fH else Out_None)]"
    by (rule invoke_cases)
  obtain r4 h rt4 where i4: "invoke (Call_GetValue fH) Out_Int64 (GetValue sdk fH) rt3 = ((r4, h), rt4)"
    and c4: "calls rt4 = calls rt3 @ [(Call_GetValue fH, r4,
        if VmbErrorSuccess = r4 then Out_Int64 h else Out_None)]"
    by (rule invoke_cases)
  obtain r5 fP rt5 where i5: "invoke (Call_GetFeatureByName cam ''PixelFormat'') Out_Feature
      (GetFeatureByName sdk cam ''PixelFormat'') rt4 = ((r5, fP), rt5)"
    and c5: "calls rt5 = calls rt4 @ [(Call_GetFeatureByName cam ''PixelFormat'', r5,
        if VmbErrorSuccess = r5 then Out_Feature fP else Out_None)]"
    by (rule invoke_cases)
  obtain r6 u6 rt6 where i6: "invoke (Call_SetValue fP (VmbPixelFormatRgb8 sdk)) no_out
      (SetValue sdk fP (VmbPixelFormatRgb8 sdk)) rt5 = ((r6, u6), rt6)"
    and c6: "calls rt6 = calls rt5 @ [(Call_SetValue fP (VmbPixelFormatRgb8 sdk), r6,
        if VmbErrorSuccess = r6 then no_out u6 else Out_None)]"
    by (rule invoke_cases)
  obtain r7 u7 rt7 where i7: "invoke (Call_SetValue fP (VmbPixelFormatMono8 sdk)) no_out
      (SetValue sdk fP (VmbPixelFormatMono8 sdk)) rt6 = ((r7, u7), rt7)"
    and c7: "calls rt7 = calls rt6 @ [(Call_SetValue fP (VmbPixelFormatMono8 sdk), r7,
        if VmbErrorSuccess = r7 then no_out u7 else Out_None)]"
    by (rule invoke_cases)
  obtain r8 p rt8 where i8: "invoke (Call_GetValue fP) Out_Int64 (GetValue sdk fP)
      (if VmbErrorSuccess = r6 then rt6 else rt7) = ((r8, p), rt8)"
    and c8: "calls rt8 = calls (if VmbErrorSuccess = r6 then rt6 else rt7) @ [(Call_GetValue fP, r8,
        if VmbErrorSuccess = r8 then Out_Int64 p else Out_None)]"
    by (rule invoke_cases)
  obtain r9 frame rt9 where i9: "invoke (Call_AcquireSingleImage cam 2000) Out_Frame
      (Camera_AcquireSingleImage sdk cam 2000) rt8 = ((r9, frame), rt9)"
    and c9: "calls rt9 = calls rt8 @ [(Call_AcquireSingleImage cam 2000, r9,
        if VmbErrorSuccess = r9 then Out_Frame frame else Out_None)]"
    by (rule invoke_cases)
  have eq: "ConfigureAndCapture sdk cam (c, rt) =
       (if VmbErrorSuccess \<noteq> r1 then (r1, c, None, rt1)
        else if VmbErrorSuccess \<noteq> r2 then (r2, c, None, rt2)
        else if VmbErrorSuccess \<noteq> r3 then (r3, c\<lparr>m_nWidth := w\<rparr>, None, rt3)
        else let c4 = (if VmbErrorSuccess = r4 then c\<lparr>m_nWidth := w, m_nHeight := h\<rparr>
                       else c\<lparr>m_nWidth := w\<rparr>) in
        if VmbErrorSuccess \<noteq> r5 then (r5, c4, None, rt5)
        else let res = (if VmbErrorSuccess = r6 then r6 else r7);
                 c8 = (if VmbErrorSuccess = r8 then c4\<lparr>m_nPixelFormat := p\<rparr> else c4) in
        if VmbErrorSuccess \<noteq> res then (res, c8, None, rt8)
        else (r9, c8, if VmbErrorSuccess = r9 then Some frame else None, rt9))"
  proof -
    have i8a: "VmbErrorSuccess = r6 \<Longrightarrow>
        invoke (Call_GetValue fP) Out_Int64 (GetValue sdk fP) rt6 = ((r8, p), rt8)"
      and i8b: "VmbErrorSuccess \<noteq> r6 \<Longrightarrow>
        invoke (Call_GetValue fP) Out_Int64 (GetValue sdk fP) rt7 = ((r8, p), rt8)"
      using i8 by simp_all
    show ?thesis
      by (simp add: ConfigureAndCapture_def i1 i2 i3 i4 i5 i6 i7 i8a i8b i9 Let_def)
  qed
  from c6 c7 have c6': "calls rt6 = calls rt5 @ [(Call_SetValue fP (VmbPixelFormatRgb8 sdk), r6, Out_None)]"
    and c7': "calls rt7 = calls rt6 @ [(Call_SetValue fP (VmbPixelFormatMono8 sdk), r7, Out_None)]"
    by (simp_all add: no_out_def)
  from that [OF c1 c2 c3 c4 c5 c6' c7' c8 c9 eq] show thesis .
qed


lemma ConfigureAndCapture_success:
  assumes "ConfigureAndCapture sdk cam (c, rt) = (VmbErrorSuccess, c', fr, rt')"
  shows "\<exists>fW fH rh fP r1 rp frame.
    calls rt' = calls rt @
       [(Call_GetFeatureByName cam ''Width'', VmbErrorSuccess, Out_Feature fW),
        (Call_GetValue fW, VmbErrorSuccess, Out_Int64 (m_nWidth c')),
        (Call_GetFeatureByName cam ''Height'', VmbErrorSuccess, Out_Feature fH),
        (Call_GetValue fH, rh,
           if VmbErrorSuccess = rh then Out_Int64 (m_nHeight c') else Out_None),
        (Call_GetFeatureByName cam ''PixelFormat'', VmbErrorSuccess, Out_Feature fP),
        (Call_SetValue fP (VmbPixelFormatRgb8 sdk), r1, Out_None)] @
       (if VmbErrorSuccess = r1 then []
        else [(Call_SetValue fP (VmbPixelFormatMono8 sdk), VmbErrorSuccess, Out_None)]) @
       [(Call_GetValue fP, rp,
           if VmbErrorSuccess = rp then Out_Int64 (m_nPixelFormat c') else Out_None),
        (Call_AcquireSingleImage cam 2000, VmbErrorSuccess, Out_Frame frame)]
    \<and> (VmbErrorSuccess \<noteq> rp \<longrightarrow> m_nPixelFormat c' = m_nPixelFormat c)
    \<and> fr = Some frame"
proof (rule ConfigureAndCapture_steps [where sdk = sdk and cam = cam and c = c and rt = rt], goal_cases)
  case (1 r1 fW rt1 r2 w rt2 r3 fH rt3 r4 h rt4 r5 fP rt5 r6 rt6 r7 rt7 r8 p rt8 r9 frame rt9)
  from 1(10) assms have ok: "r1 = VmbErrorSuccess" "r2 = VmbErrorSuccess" "r3 = VmbErrorSuccess"
    "r5 = VmbErrorSuccess" "r9 = VmbErrorSuccess" "VmbErrorSuccess \<noteq> r6 \<longrightarrow> r7 = VmbErrorSuccess"
    by (auto simp: Let_def split: if_split_asm)
  from 1(10) assms ok have res: "rt' = rt9" "fr = Some frame" "m_nWidth c' = w"
    "VmbErrorSuccess = r4 \<longrightarrow> m_nHeight c' = h" "VmbErrorSuccess = r8 \<longrightarrow> m_nPixelFormat c' = p"
    "VmbErrorSuccess \<noteq> r8 \<longrightarrow> m_nPixelFormat c' = m_nPixelFormat c"
    by (auto simp: Let_def split: if_split_asm)
  show ?case
    apply (rule exI [where x = fW], rule exI [where x = fH], rule exI [where x = r4])
    apply (rule exI [where x = fP], rule exI [where x = r6], rule exI [where x = r8])
    apply (rule exI [where x = frame])
    using 1(1-9) ok res by auto
qed

lemma ConfigureAndCapture_format:
  assumes "ConfigureAndCapture sdk cam (c, rt) = (res, c', fr, rt')"
  shows "(\<exists>cfg. calls rt' = calls rt @ cfg \<and>
            (\<forall>e\<in>set cfg. is_format_lookup (fst e) \<longrightarrow> fst (snd e) \<noteq> VmbErrorSuccess))
       \<or> (\<exists>pre fP r6 tail.
            calls rt' = calls rt @ pre @
               (Call_GetFeatureByName cam ''PixelFormat'', VmbErrorSuccess, Out_Feature fP) #
               (Call_SetValue fP (VmbPixelFormatRgb8 sdk), r6, Out_None) # tail
          \<and> (\<forall>e\<in>set pre. \<not> is_format_lookup (fst e))
          \<and> (\<forall>e\<in>set tail. \<not> is_format_lookup (fst e))
          \<and> (VmbErrorSuccess \<noteq> r6 \<longrightarrow>
               (\<exists>r7 r8 o8 o9.
                  tail = (Call_SetValue fP (VmbPixelFormatMono8 sdk), r7, Out_None) #
                         (Call_GetValue fP, r8, o8) #
                         (if VmbErrorSuccess = r7 then [(Call_AcquireSingleImage cam 2000, res, o9)]
                          else [])
                \<and> (VmbErrorSuccess \<noteq> r7 \<longrightarrow> res = r7))))"
proof (rule ConfigureAndCapture_steps [where sdk = sdk and cam = cam and c = c and rt = rt], goal_cases)
  case (1 r1 fW rt1 r2 w rt2 r3 fH rt3 r4 h rt4 r5 fP rt5 r6 rt6 r7 rt7 r8 p rt8 r9 frame rt9)
  note tr = 1(1-9) and eq = 1(10)
  show ?case
  proof (cases "VmbErrorSuccess = r1 \<and> VmbErrorSuccess = r2 \<and> VmbErrorSuccess = r3 \<and> VmbErrorSuccess = r5")
    case False
    with assms eq have "(VmbErrorSuccess \<noteq> r1 \<and> rt' = rt1)
        \<or> (VmbErrorSuccess = r1 \<and> VmbErrorSuccess \<noteq> r2 \<and> rt' = rt2)
        \<or> (VmbErrorSuccess = r1 \<and> VmbErrorSuccess = r2 \<and> VmbErrorSuccess \<noteq> r3 \<and> rt' = rt3)
        \<or> (VmbErrorSuccess = r1 \<and> VmbErrorSuccess = r2 \<and> VmbErrorSuccess = r3
             \<and> VmbErrorSuccess \<noteq> r5 \<and> rt' = rt5)"
      by (auto simp: Let_def split: if_split_asm)
    with tr have "\<exists>cfg. calls rt' = calls rt @ cfg \<and>
            (\<forall>e\<in>set cfg. is_format_lookup (fst e) \<longrightarrow> fst (snd e) \<noteq> VmbErrorSuccess)"
      by auto
    then show ?thesis by (rule disjI1)
  next
    case True
    let ?pre = "[(Call_GetFeatureByName cam ''Width'', VmbErrorSuccess, Out_Feature fW),
        (Call_GetValue fW, VmbErrorSuccess, Out_Int64 w),
        (Call_GetFeatureByName cam ''Height'', VmbErrorSuccess, Out_Feature fH),
        (Call_GetValue fH, r4, if VmbErrorSuccess = r4 then Out_Int64 h else Out_None)]"
    let ?o8 = "if VmbErrorSuccess = r8 then Out_Int64 p else Out_None"
    let ?o9 = "if VmbErrorSuccess = r9 then Out_Frame frame else Out_None"
    let ?tail = "if VmbErrorSuccess = r6
       then [(Call_GetValue fP, r8, ?o8), (Call_AcquireSingleImage cam 2000, r9, ?o9)]
       else (Call_SetValue fP (VmbPixelFormatMono8 sdk), r7, Out_None) #
            (Call_GetValue fP, r8, ?o8) #
            (if VmbErrorSuccess = r7 then [(Call_AcquireSingleImage cam 2000, res, ?o9)] else [])"
    from True assms eq have r: "VmbErrorSuccess = r6 \<longrightarrow> rt' = rt9 \<and> res = r9"
      "VmbErrorSuccess \<noteq> r6 \<and> VmbErrorSuccess = r7 \<longrightarrow> rt' = rt9 \<and> res = r9"
      "VmbErrorSuccess \<noteq> r6 \<and> VmbErrorSuccess \<noteq> r7 \<longrightarrow> rt' = rt8 \<and> res = r7"
      by (auto simp: Let_def split: if_split_asm)
    from True tr r have a: "calls rt' = calls rt @ ?pre @
               (Call_GetFeatureByName cam ''PixelFormat'', VmbErrorSuccess, Out_Feature fP) #
               (Call_SetValue fP (VmbPixelFormatRgb8 sdk), r6, Out_None) # ?tail"
      by (cases "VmbErrorSuccess = r6"; cases "VmbErrorSuccess = r7") auto
    have b: "\<forall>e\<in>set ?pre. \<not> is_format_lookup (fst e)" by simp
    have c: "\<forall>e\<in>set ?tail. \<not> is_format_lookup (fst e)" by simp
    from r have d: "VmbErrorSuccess \<noteq> r6 \<longrightarrow>
               (\<exists>r7 r8 o8 o9.
                  ?tail = (Call_SetValue fP (VmbPixelFormatMono8 sdk), r7, Out_None) #
                         (Call_GetValue fP, r8, o8) #
                         (if VmbErrorSuccess = r7 then [(Call_AcquireSingleImage cam 2000, res, o9)]
                          else [])
                \<and> (VmbErrorSuccess \<noteq> r7 \<longrightarrow> res = r7))"
      by (intro impI exI [where x = r7] exI [where x = r8] exI [where x = ?o8] exI [where x = ?o9]) simp
    from a b c d show ?thesis by blast
  qed
qed

section \<open>The whole call\<close>

lemma AcquireSingleImage_cases:
  assumes "AcquireSingleImage sdk rStrCameraID (c, rt) = Some (res, c', fr, rt')"
  obtains (failed) e cam w1 where
      "OpenCameraByID sdk (c_str rStrCameraID) (world rt) = ((e, cam), w1)"
      "e \<noteq> VmbErrorSuccess" "res = e" "c' = c" "fr = None"
      "calls rt' = calls rt @ [(Call_OpenCameraByID (c_str rStrCameraID), e, Out_None)]"
  | (opened) cam w1 pk rt2 rt3 rc where
      "OpenCameraByID sdk (c_str rStrCameraID) (world rt) = ((VmbErrorSuccess, cam), w1)"
      "calls rt2 = calls rt @
         (Call_OpenCameraByID (c_str rStrCameraID), VmbErrorSuccess, Out_Camera cam) # pk"
      "\<forall>e\<in>set pk. is_packet_call (fst e)"
      "ConfigureAndCapture sdk cam (c\<lparr>m_pCamera := Some cam\<rparr>, rt2) = (res, c', fr, rt3)"
      "calls rt' = calls rt3 @ [(Call_Close cam, rc, Out_None)]"
proof -
  obtain e cam w1 where op: "OpenCameraByID sdk (c_str rStrCameraID) (world rt) = ((e, cam), w1)"
    by (metis prod.exhaust)
  show thesis
  proof (cases "e = VmbErrorSuccess")
    case False
    with assms op show thesis
      by (intro failed [of e cam w1]) (auto simp: AcquireSingleImage_def invoke_def)
  next
    case True
    let ?rt1 = "\<lparr>world = w1, calls = calls rt @
       [(Call_OpenCameraByID (c_str rStrCameraID), VmbErrorSuccess, Out_Camera cam)]\<rparr>"
    from assms op True obtain rt2 where
      adj: "AdjustPacketSize sdk cam ?rt1 = Some rt2"
      by (auto simp: AcquireSingleImage_def invoke_def split: option.splits)
    from AdjustPacketSize_calls [OF adj] obtain pk where
      pk: "calls rt2 = calls ?rt1 @ pk" "\<forall>e\<in>set pk. is_packet_call (fst e)"
      by blast
    obtain res3 c3 fr3 rt3 where
      cc: "ConfigureAndCapture sdk cam (c\<lparr>m_pCamera := Some cam\<rparr>, rt2) = (res3, c3, fr3, rt3)"
      by (metis prod.exhaust)
    obtain rc u rt4 where
      cl: "invoke (Call_Close cam) no_out (Close sdk cam) rt3 = ((rc, u), rt4)"
      by (metis prod.exhaust)
    from assms op True adj cc cl have eqs: "res = res3" "c' = c3" "fr = fr3" "rt' = rt4"
      by (auto simp: AcquireSingleImage_def invoke_def)
    from invoke_calls [OF cl] have "calls rt4 = calls rt3 @ [(Call_Close cam, rc, Out_None)]"
      by (simp add: no_out_def)
    with op True pk cc eqs show thesis
      by (intro opened [of cam w1 rt2 pk rt3 rc]) auto
  qed
qed



lemma deliveredI:
  "(Call_GetFeatureByName cam n, VmbErrorSuccess, Out_Feature f) \<in> set evs \<Longrightarrow>
   (Call_GetValue f, VmbErrorSuccess, Out_Int64 v) \<in> set evs \<Longrightarrow> delivered n v evs"
  unfolding delivered_def by blast

lemma ConfigureAndCapture_fields:
  assumes "ConfigureAndCapture sdk cam (c, rt) = (res, c', fr, rt')"
  shows "\<exists>evs. calls rt' = calls rt @ evs \<and> kept_or_delivered c c' evs"
proof (rule ConfigureAndCapture_steps [where sdk = sdk and cam = cam and c = c and rt = rt], goal_cases)
  case (1 r1 fW rt1 r2 w rt2 r3 fH rt3 r4 h rt4 r5 fP rt5 r6 rt6 r7 rt7 r8 p rt8 r9 frame rt9)
  note tr = 1(1-9) and eq = 1(10)
  show ?case
  proof (cases "VmbErrorSuccess = r1 \<and> VmbErrorSuccess = r2")
    case False
    with assms eq have same: "c' = c" and "rt' = rt1 \<or> rt' = rt2"
      by (auto simp: Let_def split: if_split_asm)
    with tr(1,2) obtain evs where "calls rt' = calls rt @ evs" by auto
    with same show ?thesis by (auto simp: kept_or_delivered_def)
  next
    case w_ok: True
    let ?wl = "(Call_GetFeatureByName cam ''Width'', VmbErrorSuccess, Out_Feature fW)"
    let ?wr = "(Call_GetValue fW, VmbErrorSuccess, Out_Int64 w)"
    let ?hl = "(Call_GetFeatureByName cam ''Height'', VmbErrorSuccess, Out_Feature fH)"
    let ?hr = "(Call_GetValue fH, VmbErrorSuccess, Out_Int64 h)"
    let ?pl = "(Call_GetFeatureByName cam ''PixelFormat'', VmbErrorSuccess, Out_Feature fP)"
    let ?pr = "(Call_GetValue fP, VmbErrorSuccess, Out_Int64 p)"
    from w_ok tr(1,2) have t2: "calls rt2 = calls rt @ [?wl, ?wr]" by simp
    show ?thesis
    proof (cases "VmbErrorSuccess = r3")
      case False
      with w_ok assms eq have c': "c' = c\<lparr>m_nWidth := w\<rparr>" and "rt' = rt3"
        by (auto simp: Let_def split: if_split_asm)
      with t2 tr(3) obtain evs where ev: "calls rt' = calls rt @ evs"
        and mem: "?wl \<in> set evs" "?wr \<in> set evs" by auto
      from mem have "delivered ''Width'' w evs" by (rule deliveredI)
      with c' ev show ?thesis by (auto simp: kept_or_delivered_def)
    next
      case h_ok: True
      let ?c4 = "if VmbErrorSuccess = r4 then c\<lparr>m_nWidth := w, m_nHeight := h\<rparr>
                 else c\<lparr>m_nWidth := w\<rparr>"
      from h_ok t2 tr(3,4) obtain e4 where t4: "calls rt4 = calls rt @ [?wl, ?wr, ?hl, e4]"
        and e4: "VmbErrorSuccess = r4 \<longrightarrow> e4 = ?hr" by simp
      show ?thesis
      proof (cases "VmbErrorSuccess = r5")
        case False
        with w_ok h_ok assms eq have c': "c' = ?c4" and "rt' = rt5"
          by (auto simp: Let_def split: if_split_asm)
        with t4 tr(5) obtain evs where ev: "calls rt' = calls rt @ evs"
          and mem: "?wl \<in> set evs" "?wr \<in> set evs" "?hl \<in> set evs" "e4 \<in> set evs" by auto
        from mem(1,2) have dw: "delivered ''Width'' w evs" by (rule deliveredI)
        from mem(3,4) e4 have dh: "VmbErrorSuccess = r4 \<longrightarrow> delivered ''Height'' h evs"
          by (auto intro: deliveredI)
        from c' dw dh have "kept_or_delivered c c' evs"
          by (cases "VmbErrorSuccess = r4") (simp_all add: kept_or_delivered_def)
        with ev show ?thesis by blast
      next
        case f_ok: True
        let ?c8 = "if VmbErrorSuccess = r8 then ?c4\<lparr>m_nPixelFormat := p\<rparr> else ?c4"
        from w_ok h_ok f_ok assms eq have c': "c' = ?c8" and rt': "rt' = rt8 \<or> rt' = rt9"
          by (auto simp: Let_def split: if_split_asm)
        from t4 tr(5-8) f_ok obtain mid e8 where
          t8: "calls rt8 = calls rt @ [?wl, ?wr, ?hl, e4, ?pl] @ mid @ [e8]"
          and e8: "VmbErrorSuccess = r8 \<longrightarrow> e8 = ?pr"
          by (cases "VmbErrorSuccess = r6") auto
        with rt' tr(9) obtain evs where ev: "calls rt' = calls rt @ evs"
          and mem: "?wl \<in> set evs" "?wr \<in> set evs" "?hl \<in> set evs" "e4 \<in> set evs"
            "?pl \<in> set evs" "e8 \<in> set evs" by auto
        from mem(1,2) have dw: "delivered ''Width'' w evs" by (rule deliveredI)
        from mem(3,4) e4 have dh: "VmbErrorSuccess = r4 \<longrightarrow> delivered ''Height'' h evs"
          by (auto intro: deliveredI)
        from mem(5,6) e8 have dp: "VmbErrorSuccess = r8 \<longrightarrow> delivered ''PixelFormat'' p evs"
          by (auto intro: deliveredI)
        from c' dw dh dp have "kept_or_delivered c c' evs"
          by (cases "VmbErrorSuccess = r4"; cases "VmbErrorSuccess = r8")
            (simp_all add: kept_or_delivered_def)
        with ev show ?thesis by blast
      qed
    qed
  qed
qed

lemma delivered_append:
  "delivered n v evs \<Longrightarrow> delivered n v (pre @ evs @ post)"
  unfolding delivered_def by auto

lemma kept_or_delivered_append:
  "kept_or_delivered c c' evs \<Longrightarrow> kept_or_delivered c c' (pre @ evs @ post)"
  unfolding kept_or_delivered_def using delivered_append by blast

lemma kept_or_delivered_trans:
  assumes "kept_or_delivered c c1 evs1" and "kept_or_delivered c1 c' evs2"
  shows "kept_or_delivered c c' (evs1 @ evs2)"
proof -
  from assms(1) have a: "kept_or_delivered c c1 (evs1 @ evs2)"
    using kept_or_delivered_append [of c c1 evs1 "[]" evs2] by simp
  from assms(2) have b: "kept_or_delivered c1 c' (evs1 @ evs2)"
    using kept_or_delivered_append [of c1 c' evs2 evs1 "[]"] by simp
  from a b show ?thesis
    unfolding kept_or_delivered_def by metis
qed

lemma AcquireSingleImage_fields:
  assumes "AcquireSingleImage sdk rStrCameraID (c, rt) = Some (res, c', fr, rt')"
  shows "\<exists>evs. calls rt' = calls rt @ evs \<and> kept_or_delivered c c' evs"
  using assms
proof (cases rule: AcquireSingleImage_cases)
  case (failed e cam w1)
  then show ?thesis by (simp add: kept_or_delivered_def)
next
  case (opened cam w1 pk rt2 rt3 rc)
  from ConfigureAndCapture_fields [OF opened(4)] obtain evs where
    ev: "calls rt3 = calls rt2 @ evs" and k: "kept_or_delivered (c\<lparr>m_pCamera := Some cam\<rparr>) c' evs"
    by blast
  let ?pre = "(Call_OpenCameraByID (c_str rStrCameraID), VmbErrorSuccess, Out_Camera cam) # pk"
  let ?all = "?pre @ evs @ [(Call_Close cam, rc, Out_None)]"
  from opened(2,5) ev have "calls rt' = calls rt @ ?all" by simp
  moreover from k have "kept_or_delivered c c' evs" by (simp add: kept_or_delivered_def)
  then have "kept_or_delivered c c' ?all" by (rule kept_or_delivered_append)
  ultimately show ?thesis by blast
qed

lemma serve_fields:
  assumes "serve sdk r (c, rt) = Some (st, c', rt')"
  shows "\<exists>evs. calls rt' = calls rt @ evs \<and> kept_or_delivered c c' evs"
proof (cases r)
  case Req_StartUp
  with assms have "\<exists>evs. calls rt' = calls rt @ evs" "m_nWidth c' = m_nWidth c"
    "m_nHeight c' = m_nHeight c" "m_nPixelFormat c' = m_nPixelFormat c"
    by (auto simp: StartUp_def invoke_def Let_def split: prod.splits if_split_asm)
  then show ?thesis by (auto simp: kept_or_delivered_def)
next
  case Req_ShutDown
  with assms show ?thesis
    by (auto simp: ShutDown_def invoke_def kept_or_delivered_def split: prod.splits)
next
  case Req_GetCameraList
  with assms show ?thesis
    by (auto simp: GetCameraList_def invoke_def kept_or_delivered_def split: prod.splits if_split_asm)
next
  case (Req_AcquireSingleImage rStrCameraID)
  with assms obtain res fr where
    "AcquireSingleImage sdk rStrCameraID (c, rt) = Some (res, c', fr, rt')"
    by (auto split: option.splits)
  then show ?thesis by (rule AcquireSingleImage_fields)
qed

lemma use_without_success_fields:
  assumes "use_without_success sdk rs (c, rt) = Some (c', rt')"
  shows "\<exists>evs. calls rt' = calls rt @ evs \<and> kept_or_delivered c c' evs"
  using assms
proof (induction rs arbitrary: c rt)
  case Nil
  then show ?case by (simp add: kept_or_delivered_def)
next
  case (Cons r rs)
  from Cons.prems obtain st c1 rt1 where
    one: "serve sdk r (c, rt) = Some (st, c1, rt1)"
    and rest: "use_without_success sdk rs (c1, rt1) = Some (c', rt')"
    by (auto split: option.splits if_split_asm)
  from serve_fields [OF one] obtain evs1 where
    e1: "calls rt1 = calls rt @ evs1" and k1: "kept_or_delivered c c1 evs1" by blast
  from Cons.IH [OF rest] obtain evs2 where
    e2: "calls rt' = calls rt1 @ evs2" and k2: "kept_or_delivered c1 c' evs2" by blast
  from e1 e2 have "calls rt' = calls rt @ (evs1 @ evs2)" by simp
  moreover from k1 k2 have "kept_or_delivered c c' (evs1 @ evs2)"
    by (rule kept_or_delivered_trans)
  ultimately show ?case by blast
qed

lemma only_occurrence:
  assumes "xs @ a # ys = pre @ b # post"
    and "\<forall>e\<in>set xs. \<not> P e" and "\<forall>e\<in>set ys. \<not> P e" and "P b"
  shows "pre = xs \<and> b = a \<and> post = ys"
proof -
  from assms(1) have "b \<in> set (xs @ a # ys)" by simp
  with assms(2-4) have ba: "b = a" by auto
  with assms(2-4) have "a \<notin> set xs" "a \<notin> set ys" by auto
  with assms(1) ba show ?thesis by (simp add: append_Cons_eq_iff)
qed

lemma no_occurrence:
  assumes "zs = pre @ b # post" and "\<forall>e\<in>set zs. \<not> P e" and "P b"
  shows False
  using assms by auto

lemmas sim_simps = simulate_def healthy_def rt0_def mem0_def feature_of_def
  calls_open_adjust_def calls_size_def
lemmas model_simps = AcquireSingleImage_def AdjustPacketSize_def ConfigureAndCapture_def invoke_def
  c_str_def no_out_def poll_IsCommandDone.simps

section \<open>StartUp and GetCameraList\<close>

text \<open>
  C9. StartUp calls the library's Startup once. If that fails, its status is returned,
  no observer is created or registered and nothing else is called. If it succeeds, one
  CameraObserver is created and stored, RegisterCameraListObserver is called once with
  it, and the status of that registration is what StartUp returns. Neither call is
  repeated.
\<close>

theorem C9_StartUp:
  "(Startup sdk (world rt) = ((e, u), w1) \<and> e \<noteq> VmbErrorSuccess \<longrightarrow>
      StartUp sdk (c, rt) =
        (e, c, \<lparr>world = w1, calls = calls rt @ [(Call_Startup, e, Out_None)]\<rparr>))
   \<and> (Startup sdk (world rt) = ((VmbErrorSuccess, u), w1) \<and>
      RegisterCameraListObserver sdk CameraObserver w1 = ((r, u'), w2) \<longrightarrow>
      StartUp sdk (c, rt) =
        (r, c\<lparr>m_pCameraObserver := Some CameraObserver\<rparr>,
         \<lparr>world = w2,
          calls = calls rt @ [(Call_Startup, VmbErrorSuccess, Out_None),
                              (Call_RegisterCameraListObserver CameraObserver, r, Out_None)]\<rparr>))"
  by (auto simp: StartUp_def invoke_def no_out_def)

text \<open>
  Both parts at work: a library that cannot start, and one that starts but refuses the
  observer.
\<close>

theorem C9_witness:
  "StartUp (simulate (healthy\<lparr>sim_startup := VmbErrorOther 1\<rparr>)) (mem0, rt0) =
     (VmbErrorOther 1, mem0,
      \<lparr>world = \<lparr>polls = 0, format = 0\<rparr>, calls = [(Call_Startup, VmbErrorOther 1, Out_None)]\<rparr>)
   \<and> StartUp (simulate (healthy\<lparr>sim_register := VmbErrorOther 5\<rparr>)) (mem0, rt0) =
     (VmbErrorOther 5, mem0\<lparr>m_pCameraObserver := Some CameraObserver\<rparr>,
      \<lparr>world = \<lparr>polls = 0, format = 0\<rparr>,
       calls = [(Call_Startup, VmbErrorSuccess, Out_None),
                (Call_RegisterCameraListObserver CameraObserver, VmbErrorOther 5, Out_None)]\<rparr>)"
  using
    C9_StartUp [of "simulate (healthy\<lparr>sim_startup := VmbErrorOther 1\<rparr>)" rt0 "VmbErrorOther 1" "()"
      "\<lparr>polls = 0, format = 0\<rparr>" mem0]
    C9_StartUp [of "simulate (healthy\<lparr>sim_register := VmbErrorOther 5\<rparr>)" rt0 _ "()"
      "\<lparr>polls = 0, format = 0\<rparr>" mem0 "VmbErrorOther 5" "()" "\<lparr>polls = 0, format = 0\<rparr>"]
  by (simp add: sim_simps)

text \<open>
  C6. GetCameraList calls GetCameras once. On success it returns the enumerated list; on
  any other status it returns the empty list and the status is lost (the result has no
  status component). Hence a successful enumeration of zero cameras and a failed
  enumeration give the same list.
\<close>

theorem C6_GetCameraList:
  "(GetCameras sdk (world rt) = ((VmbErrorSuccess, cameras), w1) \<longrightarrow>
      GetCameraList sdk rt =
        (cameras, \<lparr>world = w1, calls = calls rt @ [(Call_GetCameras, VmbErrorSuccess, Out_Cameras cameras)]\<rparr>))
   \<and> (GetCameras sdk (world rt) = ((e, cameras), w1) \<and> e \<noteq> VmbErrorSuccess \<longrightarrow>
      GetCameraList sdk rt = ([], \<lparr>world = w1, calls = calls rt @ [(Call_GetCameras, e, Out_None)]\<rparr>))
   \<and> (GetCameras sdk (world rt) = ((VmbErrorSuccess, []), w1) \<and>
      GetCameras sdk' (world rt') = ((e', cameras'), w1') \<and> e' \<noteq> VmbErrorSuccess \<longrightarrow>
      fst (GetCameraList sdk rt) = fst (GetCameraList sdk' rt'))"
  by (auto simp: GetCameraList_def invoke_def)

theorem C6_witness:
  "GetCameraList (simulate healthy) rt0 =
     ([7], \<lparr>world = \<lparr>polls = 0, format = 0\<rparr>,
            calls = [(Call_GetCameras, VmbErrorSuccess, Out_Cameras [7])]\<rparr>)
   \<and> GetCameraList (simulate (healthy\<lparr>sim_cameras := (VmbErrorOther 2, [7])\<rparr>)) rt0 =
     ([], \<lparr>world = \<lparr>polls = 0, format = 0\<rparr>, calls = [(Call_GetCameras, VmbErrorOther 2, Out_None)]\<rparr>)
   \<and> fst (GetCameraList (simulate (healthy\<lparr>sim_cameras := (VmbErrorSuccess, [])\<rparr>)) rt0) =
     fst (GetCameraList (simulate (healthy\<lparr>sim_cameras := (VmbErrorOther 2, [7])\<rparr>)) rt0)"
  using
    C6_GetCameraList [of "simulate healthy" rt0 "[7]" "\<lparr>polls = 0, format = 0\<rparr>"]
    C6_GetCameraList [of "simulate (healthy\<lparr>sim_cameras := (VmbErrorOther 2, [7])\<rparr>)" rt0 "[7]"
      "\<lparr>polls = 0, format = 0\<rparr>" "VmbErrorOther 2"]
    C6_GetCameraList [of "simulate (healthy\<lparr>sim_cameras := (VmbErrorSuccess, [])\<rparr>)" rt0 "[]"
      "\<lparr>polls = 0, format = 0\<rparr>" _ "simulate (healthy\<lparr>sim_cameras := (VmbErrorOther 2, [7])\<rparr>)" rt0
      "VmbErrorOther 2" "[7]" "\<lparr>polls = 0, format = 0\<rparr>"]
  by (simp add: sim_simps)

section \<open>AcquireSingleImage\<close>

text \<open>
  C3. When OpenCameraByID returns a status other than success, AcquireSingleImage returns
  exactly that status; the only library call made is the OpenCameraByID itself (no feature
  call, no capture, no Close); the controller, with its cached width, height and pixel
  format, is unchanged and no frame is delivered.
\<close>

theorem C3_open_failure:
  assumes "OpenCameraByID sdk (c_str rStrCameraID) (world rt) = ((e, cam), w1)"
    and "e \<noteq> VmbErrorSuccess"
  shows "AcquireSingleImage sdk rStrCameraID (c, rt) =
           Some (e, c, None,
             \<lparr>world = w1, calls = calls rt @ [(Call_OpenCameraByID (c_str rStrCameraID), e, Out_None)]\<rparr>)"
  using assms by (auto simp: AcquireSingleImage_def invoke_def)

theorem C3_witness:
  "AcquireSingleImage (simulate unknown_id) ''nope'' (mem0, rt0) =
     Some (VmbErrorOther 3, mem0, None,
       \<lparr>world = \<lparr>polls = 0, format = 0\<rparr>,
        calls = [(Call_OpenCameraByID ''nope'', VmbErrorOther 3, Out_None)]\<rparr>)"
  using C3_open_failure [of "simulate unknown_id" "''nope''" rt0
      "VmbErrorOther 3" 7 "\<lparr>polls = 0, format = 0\<rparr>" mem0]
  by (simp add: sim_simps unknown_id_def c_str_def)






text \<open>
  C5. Suppose AcquireSingleImage returns and, among the calls it made, the lookup of
  PixelFormat succeeded with feature \<open>fP\<close> and the SetValue of RGB8 that follows it
  was rejected. Then the next call is SetValue of Mono8 on \<open>fP\<close>, followed by the
  read-back. If Mono8 was accepted, the capture is called next and its status is the
  status AcquireSingleImage returns; if Mono8 was rejected too, no capture is made and
  the Mono8 status is returned. Close comes last in either case.
\<close>

theorem C5_fallback_to_Mono8:
  assumes "AcquireSingleImage sdk rStrCameraID (c, rt) = Some (res, c', fr, rt')"
    and "calls rt' = calls rt @ pre @
           (Call_GetFeatureByName cam ''PixelFormat'', VmbErrorSuccess, Out_Feature fP) #
           (Call_SetValue fP (VmbPixelFormatRgb8 sdk), r1, o1) # post"
    and "r1 \<noteq> VmbErrorSuccess"
  shows "\<exists>r2 rp op ofr rc.
           post = (Call_SetValue fP (VmbPixelFormatMono8 sdk), r2, Out_None) #
                  (Call_GetValue fP, rp, op) #
                  (if VmbErrorSuccess = r2 then [(Call_AcquireSingleImage cam 2000, res, ofr)] else []) @
                  [(Call_Close cam, rc, Out_None)]
         \<and> (VmbErrorSuccess \<noteq> r2 \<longrightarrow> res = r2)"
  using assms(1)
proof (cases rule: AcquireSingleImage_cases)
  case (failed e cam' w1)
  let ?P = "\<lambda>e :: entry. is_format_lookup (fst e) \<and> fst (snd e) = VmbErrorSuccess"
  from failed(6) [symmetric] assms(2) have
    "calls rt @ [(Call_OpenCameraByID (c_str rStrCameraID), e, Out_None)] = calls rt @ (pre @
           (Call_GetFeatureByName cam ''PixelFormat'', VmbErrorSuccess, Out_Feature fP) #
           (Call_SetValue fP (VmbPixelFormatRgb8 sdk), r1, o1) # post)"
    by (rule trans)
  then have
    "[(Call_OpenCameraByID (c_str rStrCameraID), e, Out_None)] = pre @
           (Call_GetFeatureByName cam ''PixelFormat'', VmbErrorSuccess, Out_Feature fP) #
           (Call_SetValue fP (VmbPixelFormatRgb8 sdk), r1, o1) # post"
    by (rule same_append_eq [THEN iffD1])
  then have False by (rule no_occurrence [where P = ?P]) simp_all
  then show ?thesis ..
next
  case (opened cam' w1 pk rt2 rt3 rc)
  let ?P = "\<lambda>e :: entry. is_format_lookup (fst e) \<and> fst (snd e) = VmbErrorSuccess"
  let ?a = "(Call_GetFeatureByName cam ''PixelFormat'', VmbErrorSuccess, Out_Feature fP)"
  let ?b = "(Call_SetValue fP (VmbPixelFormatRgb8 sdk), r1, o1)"
  let ?open = "(Call_OpenCameraByID (c_str rStrCameraID), VmbErrorSuccess, Out_Camera cam')"
  let ?close = "(Call_Close cam', rc, Out_None)"
  have pk: "\<forall>e\<in>set pk. \<not> ?P e"
  proof
    fix e assume "e \<in> set pk"
    with opened(3) have "is_packet_call (fst e)" by blast
    then show "\<not> ?P e" by (cases "fst e") auto
  qed
  from ConfigureAndCapture_format [OF opened(4)] show ?thesis
  proof
    assume "\<exists>cfg. calls rt3 = calls rt2 @ cfg \<and>
            (\<forall>e\<in>set cfg. is_format_lookup (fst e) \<longrightarrow> fst (snd e) \<noteq> VmbErrorSuccess)"
    then obtain cfg where cfg: "calls rt3 = calls rt2 @ cfg"
      "\<forall>e\<in>set cfg. \<not> ?P e" by blast
    from opened(2,5) cfg(1) have "calls rt @ (?open # pk @ cfg @ [?close]) = calls rt'"
      by simp
    from this assms(2) have
      "calls rt @ (?open # pk @ cfg @ [?close]) = calls rt @ (pre @ ?a # ?b # post)"
      by (rule trans)
    then have "?open # pk @ cfg @ [?close] = pre @ ?a # ?b # post"
      by (rule same_append_eq [THEN iffD1])
    moreover from pk cfg(2) have "\<forall>e\<in>set (?open # pk @ cfg @ [?close]). \<not> ?P e" by auto
    ultimately have False by (rule no_occurrence [where P = ?P]) simp
    then show ?thesis ..
  next
    assume "\<exists>pre fP r6 tail.
            calls rt3 = calls rt2 @ pre @
               (Call_GetFeatureByName cam' ''PixelFormat'', VmbErrorSuccess, Out_Feature fP) #
               (Call_SetValue fP (VmbPixelFormatRgb8 sdk), r6, Out_None) # tail
          \<and> (\<forall>e\<in>set pre. \<not> is_format_lookup (fst e))
          \<and> (\<forall>e\<in>set tail. \<not> is_format_lookup (fst e))
          \<and> (VmbErrorSuccess \<noteq> r6 \<longrightarrow>
               (\<exists>r7 r8 o8 o9.
                  tail = (Call_SetValue fP (VmbPixelFormatMono8 sdk), r7, Out_None) #
                         (Call_GetValue fP, r8, o8) #
                         (if VmbErrorSuccess = r7 then [(Call_AcquireSingleImage cam' 2000, res, o9)]
                          else [])
                \<and> (VmbErrorSuccess \<noteq> r7 \<longrightarrow> res = r7)))"
    then obtain pre0 fP0 r6 tail where
      t: "calls rt3 = calls rt2 @ pre0 @
               (Call_GetFeatureByName cam' ''PixelFormat'', VmbErrorSuccess, Out_Feature fP0) #
               (Call_SetValue fP0 (VmbPixelFormatRgb8 sdk), r6, Out_None) # tail"
      and p0: "\<forall>e\<in>set pre0. \<not> is_format_lookup (fst e)"
      and t0: "\<forall>e\<in>set tail. \<not> is_format_lookup (fst e)"
      and m: "VmbErrorSuccess \<noteq> r6 \<longrightarrow>
               (\<exists>r7 r8 o8 o9.
                  tail = (Call_SetValue fP0 (VmbPixelFormatMono8 sdk), r7, Out_None) #
                         (Call_GetValue fP0, r8, o8) #
                         (if VmbErrorSuccess = r7 then [(Call_AcquireSingleImage cam' 2000, res, o9)]
                          else [])
                \<and> (VmbErrorSuccess \<noteq> r7 \<longrightarrow> res = r7))"
      by blast
    let ?lookup = "(Call_GetFeatureByName cam' ''PixelFormat'', VmbErrorSuccess, Out_Feature fP0)"
    let ?setrgb = "(Call_SetValue fP0 (VmbPixelFormatRgb8 sdk), r6, Out_None)"
    from opened(2,5) t have
      "calls rt @ ((?open # pk @ pre0) @ ?lookup # (?setrgb # tail @ [?close])) = calls rt'"
      by simp
    from this assms(2) have
      "calls rt @ ((?open # pk @ pre0) @ ?lookup # (?setrgb # tail @ [?close])) =
       calls rt @ (pre @ ?a # (?b # post))"
      by (rule trans)
    then have
      "(?open # pk @ pre0) @ ?lookup # (?setrgb # tail @ [?close]) = pre @ ?a # (?b # post)"
      by (rule same_append_eq [THEN iffD1])
    moreover from pk p0 have "\<forall>e\<in>set (?open # pk @ pre0). \<not> ?P e" by auto
    moreover from t0 have "\<forall>e\<in>set (?setrgb # tail @ [?close]). \<not> ?P e" by auto
    moreover have "?P ?a" by simp
    ultimately have "pre = ?open # pk @ pre0 \<and> ?a = ?lookup \<and> ?b # post = ?setrgb # tail @ [?close]"
      by (rule only_occurrence)
    then have same: "cam' = cam" "fP0 = fP" "r6 = r1" "post = tail @ [?close]" by simp_all
    with m assms(3) obtain r7 r8 o8 o9 where
      tl: "tail = (Call_SetValue fP (VmbPixelFormatMono8 sdk), r7, Out_None) #
                         (Call_GetValue fP, r8, o8) #
                         (if VmbErrorSuccess = r7 then [(Call_AcquireSingleImage cam 2000, res, o9)]
                          else [])"
        "VmbErrorSuccess \<noteq> r7 \<longrightarrow> res = r7"
      by auto
    show ?thesis
      apply (rule exI [where x = r7], rule exI [where x = r8], rule exI [where x = o8])
      apply (rule exI [where x = o9], rule exI [where x = rc])
      using same tl by simp
  qed
qed

text \<open>A camera that rejects RGB8 and accepts Mono8.\<close>

theorem C5_witness:
  "AcquireSingleImage (simulate mono_only) ''DEV_1'' (mem0, rt0) =
     Some (VmbErrorSuccess,
       \<lparr>m_pCamera = Some 7, m_pCameraObserver = None, m_nWidth = 640,
        m_nHeight = 480, m_nPixelFormat = 0x01080001\<rparr>,
       Some 1,
       \<lparr>world = \<lparr>polls = 2, format = 0x01080001\<rparr>, calls = calls_mono_only\<rparr>)
   \<and> calls_mono_only = calls rt0 @ (calls_open_adjust @ calls_size) @
         (Call_GetFeatureByName 7 ''PixelFormat'', VmbErrorSuccess, Out_Feature 3) #
         (Call_SetValue 3 (VmbPixelFormatRgb8 (simulate mono_only)), VmbErrorOther 4, Out_None) #
         [(Call_SetValue 3 0x01080001, VmbErrorSuccess, Out_None),
          (Call_GetValue 3, VmbErrorSuccess, Out_Int64 0x01080001),
          (Call_AcquireSingleImage 7 2000, VmbErrorSuccess, Out_Frame 1),
          (Call_Close 7, VmbErrorSuccess, Out_None)]
   \<and> VmbErrorOther 4 \<noteq> VmbErrorSuccess
   \<and> (\<exists>r2 rp op ofr rc.
         [(Call_SetValue 3 0x01080001, VmbErrorSuccess, Out_None),
          (Call_GetValue 3, VmbErrorSuccess, Out_Int64 0x01080001),
          (Call_AcquireSingleImage 7 2000, VmbErrorSuccess, Out_Frame 1),
          (Call_Close 7, VmbErrorSuccess, Out_None)] =
           (Call_SetValue 3 (VmbPixelFormatMono8 (simulate mono_only)), r2, Out_None) #
           (Call_GetValue 3, rp, op) #
           (if VmbErrorSuccess = r2 then [(Call_AcquireSingleImage 7 2000, VmbErrorSuccess, ofr)]
            else []) @
           [(Call_Close 7, rc, Out_None)]
       \<and> (VmbErrorSuccess \<noteq> r2 \<longrightarrow> VmbErrorSuccess = r2))"
proof -
  have run: "AcquireSingleImage (simulate mono_only) ''DEV_1'' (mem0, rt0) =
     Some (VmbErrorSuccess,
       \<lparr>m_pCamera = Some 7, m_pCameraObserver = None, m_nWidth = 640,
        m_nHeight = 480, m_nPixelFormat = 0x01080001\<rparr>,
       Some 1,
       \<lparr>world = \<lparr>polls = 2, format = 0x01080001\<rparr>, calls = calls_mono_only\<rparr>)"
    by (simp add: model_simps sim_simps mono_only_def calls_mono_only_def)
  have tr: "calls \<lparr>world = \<lparr>polls = 2, format = 0x01080001\<rparr>, calls = calls_mono_only\<rparr> =
       calls rt0 @ (calls_open_adjust @ calls_size) @
         (Call_GetFeatureByName 7 ''PixelFormat'', VmbErrorSuccess, Out_Feature 3) #
         (Call_SetValue 3 (VmbPixelFormatRgb8 (simulate mono_only)), VmbErrorOther 4, Out_None) #
         [(Call_SetValue 3 0x01080001, VmbErrorSuccess, Out_None),
          (Call_GetValue 3, VmbErrorSuccess, Out_Int64 0x01080001),
          (Call_AcquireSingleImage 7 2000, VmbErrorSuccess, Out_Frame 1),
          (Call_Close 7, VmbErrorSuccess, Out_None)]"
    by (simp add: sim_simps calls_mono_only_def)
  have rej: "VmbErrorOther 4 \<noteq> VmbErrorSuccess" by simp
  from C5_fallback_to_Mono8 [OF run tr rej] run tr show ?thesis
    by simp
qed

text \<open>
  C7. The polling loop leaves only after an IsCommandDone that failed or reported the
  command as done; every earlier poll succeeded and reported not done, and their number
  is not bounded. If the camera opens, the packet size command is found and started, and
  IsCommandDone always succeeds without ever reporting done, AcquireSingleImage does not
  return.
\<close>

theorem C7_polling_has_no_bound:
  "(poll_IsCommandDone sdk f rt1 = Some rt2 \<longrightarrow>
      (\<exists>pk r b. calls rt2 = calls rt1 @ pk @
                   [(Call_IsCommandDone f, r, if VmbErrorSuccess = r then Out_Bool b else Out_None)]
         \<and> (r \<noteq> VmbErrorSuccess \<or> b)
         \<and> (\<forall>e\<in>set pk. e = (Call_IsCommandDone f, VmbErrorSuccess, Out_Bool False))))
   \<and> (OpenCameraByID sdk (c_str rStrCameraID) (world rt) = ((VmbErrorSuccess, cam), w1) \<and>
      GetFeatureByName sdk cam ''GVSPAdjustPacketSize'' w1 = ((VmbErrorSuccess, f), w2) \<and>
      RunCommand sdk f w2 = ((VmbErrorSuccess, u), w3) \<and>
      (\<forall>w. fst (IsCommandDone sdk f w) = (VmbErrorSuccess, False)) \<longrightarrow>
      AcquireSingleImage sdk rStrCameraID (c, rt) = None)"
proof (intro conjI impI)
  assume "poll_IsCommandDone sdk f rt1 = Some rt2"
  then show "\<exists>pk r b. calls rt2 = calls rt1 @ pk @
                   [(Call_IsCommandDone f, r, if VmbErrorSuccess = r then Out_Bool b else Out_None)]
         \<and> (r \<noteq> VmbErrorSuccess \<or> b)
         \<and> (\<forall>e\<in>set pk. e = (Call_IsCommandDone f, VmbErrorSuccess, Out_Bool False))"
    by (rule poll_calls)
next
  assume a: "OpenCameraByID sdk (c_str rStrCameraID) (world rt) = ((VmbErrorSuccess, cam), w1) \<and>
      GetFeatureByName sdk cam ''GVSPAdjustPacketSize'' w1 = ((VmbErrorSuccess, f), w2) \<and>
      RunCommand sdk f w2 = ((VmbErrorSuccess, u), w3) \<and>
      (\<forall>w. fst (IsCommandDone sdk f w) = (VmbErrorSuccess, False))"
  then have never: "\<And>s. poll_IsCommandDone sdk f s = None"
    using poll_never_done [of sdk f] by (metis option.exhaust)
  from a show "AcquireSingleImage sdk rStrCameraID (c, rt) = None"
    by (simp add: AcquireSingleImage_def AdjustPacketSize_def invoke_def never)
qed

theorem C7_witness:
  "AcquireSingleImage (simulate never_done) ''DEV_1'' (mem0, rt0) = None"
  using C7_polling_has_no_bound [of "simulate never_done" 0 rt0 rt0 "''DEV_1''" rt0 7
      "\<lparr>polls = 0, format = 0\<rparr>" "\<lparr>polls = 0, format = 0\<rparr>" "()" "\<lparr>polls = 0, format = 0\<rparr>" mem0]
  by (simp add: sim_simps never_done_def c_str_def)

text \<open>
  C1, at a camera whose Height feature is found but cannot be read. The GetValue of
  line 150 returns \<open>VmbErrorOther 13\<close>, the first status of the call that is not
  success. The call nevertheless goes on to the pixel format and the capture and returns
  \<open>VmbErrorSuccess\<close>, with the cached height left at its old value 0.
\<close>

theorem C1_height_read_status_dropped:
  "AcquireSingleImage (simulate height_unreadable) ''DEV_1'' (mem0, rt0) =
     Some (VmbErrorSuccess,
       \<lparr>m_pCamera = Some 7, m_pCameraObserver = None, m_nWidth = 640,
        m_nHeight = 0, m_nPixelFormat = 0x02180014\<rparr>,
       Some 1,
       \<lparr>world = \<lparr>polls = 2, format = 0x02180014\<rparr>,
        calls =
          [(Call_OpenCameraByID ''DEV_1'', VmbErrorSuccess, Out_Camera 7),
           (Call_GetFeatureByName 7 ''GVSPAdjustPacketSize'', VmbErrorSuccess, Out_Feature 0),
           (Call_RunCommand 0, VmbErrorSuccess, Out_None),
           (Call_IsCommandDone 0, VmbErrorSuccess, Out_Bool False),
           (Call_IsCommandDone 0, VmbErrorSuccess, Out_Bool True),
           (Call_GetFeatureByName 7 ''Width'', VmbErrorSuccess, Out_Feature 1),
           (Call_GetValue 1, VmbErrorSuccess, Out_Int64 640),
           (Call_GetFeatureByName 7 ''Height'', VmbErrorSuccess, Out_Feature 2),
           (Call_GetValue 2, VmbErrorOther 13, Out_None),
           (Call_GetFeatureByName 7 ''PixelFormat'', VmbErrorSuccess, Out_Feature 3),
           (Call_SetValue 3 0x02180014, VmbErrorSuccess, Out_None),
           (Call_GetValue 3, VmbErrorSuccess, Out_Int64 0x02180014),
           (Call_AcquireSingleImage 7 2000, VmbErrorSuccess, Out_Frame 1),
           (Call_Close 7, VmbErrorSuccess, Out_None)]\<rparr>)"
  by (simp add: model_simps sim_simps height_unreadable_def)

text \<open>
  C4 as stated fails. The camera accepts RGB8 and delivers a frame, but the read-back of
  line 166 fails; its status is not looked at, the call returns success, and the cached
  pixel format is still the value it had before the call (here \<open>0x01080009\<close>), which
  is neither RGB8 nor Mono8.
\<close>

theorem C4_stale_pixel_format:
  "AcquireSingleImage (simulate readback_fails) ''DEV_1''
       (mem0\<lparr>m_nPixelFormat := 0x01080009\<rparr>, rt0) =
     Some (VmbErrorSuccess,
       \<lparr>m_pCamera = Some 7, m_pCameraObserver = None, m_nWidth = 640,
        m_nHeight = 480, m_nPixelFormat = 0x01080009\<rparr>,
       Some 1,
       \<lparr>world = \<lparr>polls = 2, format = 0x02180014\<rparr>,
        calls =
          [(Call_OpenCameraByID ''DEV_1'', VmbErrorSuccess, Out_Camera 7),
           (Call_GetFeatureByName 7 ''GVSPAdjustPacketSize'', VmbErrorSuccess, Out_Feature 0),
           (Call_RunCommand 0, VmbErrorSuccess, Out_None),
           (Call_IsCommandDone 0, VmbErrorSuccess, Out_Bool False),
           (Call_IsCommandDone 0, VmbErrorSuccess, Out_Bool True),
           (Call_GetFeatureByName 7 ''Width'', VmbErrorSuccess, Out_Feature 1),
           (Call_GetValue 1, VmbErrorSuccess, Out_Int64 640),
           (Call_GetFeatureByName 7 ''Height'', VmbErrorSuccess, Out_Feature 2),
           (Call_GetValue 2, VmbErrorSuccess, Out_Int64 480),
           (Call_GetFeatureByName 7 ''PixelFormat'', VmbErrorSuccess, Out_Feature 3),
           (Call_SetValue 3 0x02180014, VmbErrorSuccess, Out_None),
           (Call_GetValue 3, VmbErrorOther 12, Out_None),
           (Call_AcquireSingleImage 7 2000, VmbErrorSuccess, Out_Frame 1),
           (Call_Close 7, VmbErrorSuccess, Out_None)]\<rparr>)
   \<and> VmbPixelFormatRgb8 (simulate readback_fails) \<noteq> 0x01080009
   \<and> VmbPixelFormatMono8 (simulate readback_fails) \<noteq> 0x01080009"
  by (simp add: model_simps sim_simps readback_fails_def)

text \<open>
  C4, amended. When AcquireSingleImage returns success, the calls it made are: the open,
  the packet size block, then the lookup and read of Width, the lookup and read of Height,
  the lookup of PixelFormat, SetValue of RGB8 and, exactly when that was rejected, an
  accepted SetValue of Mono8, the read-back, the successful capture and Close. The cached
  width is the value the Width read delivered. The cached height is the value the Height
  read delivered whenever that read succeeded. The cached pixel format is the value the
  read-back delivered whenever the read-back succeeded, and is unchanged otherwise. The
  frame delivered is the captured one. The format the camera accepted is RGB8 or Mono8;
  that the cached format is one of them holds only as far as the read-back reports it.
\<close>

theorem C4_success_caches_reports:
  assumes "AcquireSingleImage sdk rStrCameraID (c, rt) = Some (VmbErrorSuccess, c', fr, rt')"
  shows "\<exists>cam pk fW fH rh fP r1 rp frame rc.
    calls rt' = calls rt @
       (Call_OpenCameraByID (c_str rStrCameraID), VmbErrorSuccess, Out_Camera cam) # pk @
       [(Call_GetFeatureByName cam ''Width'', VmbErrorSuccess, Out_Feature fW),
        (Call_GetValue fW, VmbErrorSuccess, Out_Int64 (m_nWidth c')),
        (Call_GetFeatureByName cam ''Height'', VmbErrorSuccess, Out_Feature fH),
        (Call_GetValue fH, rh,
           if VmbErrorSuccess = rh then Out_Int64 (m_nHeight c') else Out_None),
        (Call_GetFeatureByName cam ''PixelFormat'', VmbErrorSuccess, Out_Feature fP),
        (Call_SetValue fP (VmbPixelFormatRgb8 sdk), r1, Out_None)] @
       (if VmbErrorSuccess = r1 then []
        else [(Call_SetValue fP (VmbPixelFormatMono8 sdk), VmbErrorSuccess, Out_None)]) @
       [(Call_GetValue fP, rp,
           if VmbErrorSuccess = rp then Out_Int64 (m_nPixelFormat c') else Out_None),
        (Call_AcquireSingleImage cam 2000, VmbErrorSuccess, Out_Frame frame),
        (Call_Close cam, rc, Out_None)]
    \<and> (\<forall>e\<in>set pk. is_packet_call (fst e))
    \<and> (VmbErrorSuccess \<noteq> rp \<longrightarrow> m_nPixelFormat c' = m_nPixelFormat c)
    \<and> fr = Some frame"
  using assms
proof (cases rule: AcquireSingleImage_cases)
  case (failed e cam w1)
  then show ?thesis by simp
next
  case (opened cam w1 pk rt2 rt3 rc)
  from ConfigureAndCapture_success [OF opened(4)] obtain fW fH rh fP r1 rp frame where
    s: "calls rt3 = calls rt2 @
       [(Call_GetFeatureByName cam ''Width'', VmbErrorSuccess, Out_Feature fW),
        (Call_GetValue fW, VmbErrorSuccess, Out_Int64 (m_nWidth c')),
        (Call_GetFeatureByName cam ''Height'', VmbErrorSuccess, Out_Feature fH),
        (Call_GetValue fH, rh,
           if VmbErrorSuccess = rh then Out_Int64 (m_nHeight c') else Out_None),
        (Call_GetFeatureByName cam ''PixelFormat'', VmbErrorSuccess, Out_Feature fP),
        (Call_SetValue fP (VmbPixelFormatRgb8 sdk), r1, Out_None)] @
       (if VmbErrorSuccess = r1 then []
        else [(Call_SetValue fP (VmbPixelFormatMono8 sdk), VmbErrorSuccess, Out_None)]) @
       [(Call_GetValue fP, rp,
           if VmbErrorSuccess = rp then Out_Int64 (m_nPixelFormat c') else Out_None),
        (Call_AcquireSingleImage cam 2000, VmbErrorSuccess, Out_Frame frame)]"
      "VmbErrorSuccess \<noteq> rp \<longrightarrow> m_nPixelFormat c' = m_nPixelFormat (c\<lparr>m_pCamera := Some cam\<rparr>)"
      "fr = Some frame"
    by blast
  show ?thesis
    apply (rule exI [where x = cam], rule exI [where x = pk], rule exI [where x = fW])
    apply (rule exI [where x = fH], rule exI [where x = rh], rule exI [where x = fP])
    apply (rule exI [where x = r1], rule exI [where x = rp], rule exI [where x = frame])
    apply (rule exI [where x = rc])
    using opened(2,3,5) s by simp
qed

text \<open>At the camera that accepts only Mono8.\<close>

theorem C4_witness:
  "AcquireSingleImage (simulate mono_only) ''DEV_1'' (mem0, rt0) =
     Some (VmbErrorSuccess,
       \<lparr>m_pCamera = Some 7, m_pCameraObserver = None, m_nWidth = 640,
        m_nHeight = 480, m_nPixelFormat = 0x01080001\<rparr>,
       Some 1,
       \<lparr>world = \<lparr>polls = 2, format = 0x01080001\<rparr>, calls = calls_mono_only\<rparr>)
   \<and> (\<exists>cam pk fW fH rh fP r1 rp frame rc.
        calls_mono_only = calls rt0 @
          (Call_OpenCameraByID (c_str ''DEV_1''), VmbErrorSuccess, Out_Camera cam) # pk @
          [(Call_GetFeatureByName cam ''Width'', VmbErrorSuccess, Out_Feature fW),
           (Call_GetValue fW, VmbErrorSuccess, Out_Int64 640),
           (Call_GetFeatureByName cam ''Height'', VmbErrorSuccess, Out_Feature fH),
           (Call_GetValue fH, rh, if VmbErrorSuccess = rh then Out_Int64 480 else Out_None),
           (Call_GetFeatureByName cam ''PixelFormat'', VmbErrorSuccess, Out_Feature fP),
           (Call_SetValue fP (VmbPixelFormatRgb8 (simulate mono_only)), r1, Out_None)] @
          (if VmbErrorSuccess = r1 then []
           else [(Call_SetValue fP (VmbPixelFormatMono8 (simulate mono_only)), VmbErrorSuccess,
                  Out_None)]) @
          [(Call_GetValue fP, rp, if VmbErrorSuccess = rp then Out_Int64 0x01080001 else Out_None),
           (Call_AcquireSingleImage cam 2000, VmbErrorSuccess, Out_Frame frame),
           (Call_Close cam, rc, Out_None)]
       \<and> (\<forall>e\<in>set pk. is_packet_call (fst e))
       \<and> (VmbErrorSuccess \<noteq> rp \<longrightarrow> (0x01080001 :: VmbInt64) = m_nPixelFormat mem0)
       \<and> Some (1 :: FramePtr) = Some frame)"
proof -
  have run: "AcquireSingleImage (simulate mono_only) ''DEV_1'' (mem0, rt0) =
     Some (VmbErrorSuccess,
       \<lparr>m_pCamera = Some 7, m_pCameraObserver = None, m_nWidth = 640,
        m_nHeight = 480, m_nPixelFormat = 0x01080001\<rparr>,
       Some 1,
       \<lparr>world = \<lparr>polls = 2, format = 0x01080001\<rparr>, calls = calls_mono_only\<rparr>)"
    by (simp add: model_simps sim_simps mono_only_def calls_mono_only_def)
  from C4_success_caches_reports [OF run] run show ?thesis
    by (simp cong: if_cong)
qed

section \<open>Accessors\<close>

text \<open>
  C8 as stated fails: two controllers on which nothing has been acquired answer GetWidth
  differently, so there is no sentinel.
\<close>

theorem C8_no_sentinel:
  "GetWidth (ApiController_ctor (mem0\<lparr>m_nWidth := 1\<rparr>)) \<noteq>
   GetWidth (ApiController_ctor (mem0\<lparr>m_nWidth := 2\<rparr>))"
  by (simp add: GetWidth_def ApiController_ctor_def mem0_def)

text \<open>
  C8, amended. Take a controller constructed over storage \<open>mem\<close> and then used for any
  sequence of StartUp, ShutDown, GetCameraList and AcquireSingleImage calls, all of which
  returned and none of which was an acquisition returning success. GetWidth returns the
  low 32 bits of either the width field of \<open>mem\<close> (the constructor writes none of the
  three fields) or a value that the Width feature delivered in one of those calls;
  GetHeight and GetPixelFormat likewise with the Height and PixelFormat features. So the
  values are indeterminate storage content or leftovers of failed attempts, never a
  sentinel.
\<close>

theorem C8_accessors_before_success:
  assumes "use_without_success sdk rs (ApiController_ctor mem, rt) = Some (c, rt')"
  shows "\<exists>evs. calls rt' = calls rt @ evs
     \<and> (GetWidth c = ucast (m_nWidth mem)
        \<or> (\<exists>v cam f. (Call_GetFeatureByName cam ''Width'', VmbErrorSuccess, Out_Feature f) \<in> set evs
              \<and> (Call_GetValue f, VmbErrorSuccess, Out_Int64 v) \<in> set evs
              \<and> GetWidth c = ucast v))
     \<and> (GetHeight c = ucast (m_nHeight mem)
        \<or> (\<exists>v cam f. (Call_GetFeatureByName cam ''Height'', VmbErrorSuccess, Out_Feature f) \<in> set evs
              \<and> (Call_GetValue f, VmbErrorSuccess, Out_Int64 v) \<in> set evs
              \<and> GetHeight c = ucast v))
     \<and> (GetPixelFormat c = ucast (m_nPixelFormat mem)
        \<or> (\<exists>v cam f. (Call_GetFeatureByName cam ''PixelFormat'', VmbErrorSuccess, Out_Feature f) \<in> set evs
              \<and> (Call_GetValue f, VmbErrorSuccess, Out_Int64 v) \<in> set evs
              \<and> GetPixelFormat c = ucast v))"
proof -
  from use_without_success_fields [OF assms] obtain evs where
    ev: "calls rt' = calls rt @ evs" and k: "kept_or_delivered (ApiController_ctor mem) c evs"
    by blast
  have m: "m_nWidth (ApiController_ctor mem) = m_nWidth mem"
    "m_nHeight (ApiController_ctor mem) = m_nHeight mem"
    "m_nPixelFormat (ApiController_ctor mem) = m_nPixelFormat mem"
    by (simp_all add: ApiController_ctor_def)
  from k m have k': "(m_nWidth c = m_nWidth mem \<or> delivered ''Width'' (m_nWidth c) evs)"
    "(m_nHeight c = m_nHeight mem \<or> delivered ''Height'' (m_nHeight c) evs)"
    "(m_nPixelFormat c = m_nPixelFormat mem \<or> delivered ''PixelFormat'' (m_nPixelFormat c) evs)"
    by (simp_all add: kept_or_delivered_def)
  from k'(1) have w: "GetWidth c = ucast (m_nWidth mem)
        \<or> (\<exists>v cam f. (Call_GetFeatureByName cam ''Width'', VmbErrorSuccess, Out_Feature f) \<in> set evs
              \<and> (Call_GetValue f, VmbErrorSuccess, Out_Int64 v) \<in> set evs
              \<and> GetWidth c = ucast v)"
    unfolding GetWidth_def delivered_def by metis
  from k'(2) have h: "GetHeight c = ucast (m_nHeight mem)
        \<or> (\<exists>v cam f. (Call_GetFeatureByName cam ''Height'', VmbErrorSuccess, Out_Feature f) \<in> set evs
              \<and> (Call_GetValue f, VmbErrorSuccess, Out_Int64 v) \<in> set evs
              \<and> GetHeight c = ucast v)"
    unfolding GetHeight_def delivered_def by metis
  from k'(3) have p: "GetPixelFormat c = ucast (m_nPixelFormat mem)
        \<or> (\<exists>v cam f. (Call_GetFeatureByName cam ''PixelFormat'', VmbErrorSuccess, Out_Feature f) \<in> set evs
              \<and> (Call_GetValue f, VmbErrorSuccess, Out_Int64 v) \<in> set evs
              \<and> GetPixelFormat c = ucast v)"
    unfolding GetPixelFormat_def delivered_def by metis
  from ev w h p show ?thesis by blast
qed

text \<open>
  After StartUp and an acquisition whose capture failed, the accessors already return what
  the camera reported: 640 instead of the 1 the storage held.
\<close>

theorem C8_witness:
  "use_without_success (simulate capture_fails) [Req_StartUp, Req_AcquireSingleImage ''DEV_1'']
       (ApiController_ctor (mem0\<lparr>m_nWidth := 1, m_nHeight := 2, m_nPixelFormat := 3\<rparr>), rt0) =
     Some (\<lparr>m_pCamera = Some 7, m_pCameraObserver = Some CameraObserver, m_nWidth = 640,
            m_nHeight = 480, m_nPixelFormat = 0x02180014\<rparr>,
           \<lparr>world = \<lparr>polls = 2, format = 0x02180014\<rparr>,
            calls = [(Call_Startup, VmbErrorSuccess, Out_None),
                     (Call_RegisterCameraListObserver CameraObserver, VmbErrorSuccess, Out_None)] @
                    calls_capture_fails\<rparr>)
   \<and> GetWidth \<lparr>m_pCamera = Some 7, m_pCameraObserver = Some CameraObserver, m_nWidth = 640,
            m_nHeight = 480, m_nPixelFormat = 0x02180014\<rparr> = 640
   \<and> (\<exists>evs. calls \<lparr>world = \<lparr>polls = 2, format = 0x02180014\<rparr>,
            calls = [(Call_Startup, VmbErrorSuccess, Out_None),
                     (Call_RegisterCameraListObserver CameraObserver, VmbErrorSuccess, Out_None)] @
                    calls_capture_fails\<rparr> = calls rt0 @ evs
     \<and> (GetWidth \<lparr>m_pCamera = Some 7, m_pCameraObserver = Some CameraObserver, m_nWidth = 640,
            m_nHeight = 480, m_nPixelFormat = 0x02180014\<rparr> =
          ucast (m_nWidth (mem0\<lparr>m_nWidth := 1, m_nHeight := 2, m_nPixelFormat := 3\<rparr>))
        \<or> (\<exists>v cam f. (Call_GetFeatureByName cam ''Width'', VmbErrorSuccess, Out_Feature f) \<in> set evs
              \<and> (Call_GetValue f, VmbErrorSuccess, Out_Int64 v) \<in> set evs
              \<and> GetWidth \<lparr>m_pCamera = Some 7, m_pCameraObserver = Some CameraObserver, m_nWidth = 640,
                   m_nHeight = 480, m_nPixelFormat = 0x02180014\<rparr> = ucast v))
     \<and> (GetHeight \<lparr>m_pCamera = Some 7, m_pCameraObserver = Some CameraObserver, m_nWidth = 640,
            m_nHeight = 480, m_nPixelFormat = 0x02180014\<rparr> =
          ucast (m_nHeight (mem0\<lparr>m_nWidth := 1, m_nHeight := 2, m_nPixelFormat := 3\<rparr>))
        \<or> (\<exists>v cam f. (Call_GetFeatureByName cam ''Height'', VmbErrorSuccess, Out_Feature f) \<in> set evs
              \<and> (Call_GetValue f, VmbErrorSuccess, Out_Int64 v) \<in> set evs
              \<and> GetHeight \<lparr>m_pCamera = Some 7, m_pCameraObserver = Some CameraObserver, m_nWidth = 640,
                   m_nHeight = 480, m_nPixelFormat = 0x02180014\<rparr> = ucast v))
     \<and> (GetPixelFormat \<lparr>m_pCamera = Some 7, m_pCameraObserver = Some CameraObserver, m_nWidth = 640,
            m_nHeight = 480, m_nPixelFormat = 0x02180014\<rparr> =
          ucast (m_nPixelFormat (mem0\<lparr>m_nWidth := 1, m_nHeight := 2, m_nPixelFormat := 3\<rparr>))
        \<or> (\<exists>v cam f. (Call_GetFeatureByName cam ''PixelFormat'', VmbErrorSuccess, Out_Feature f) \<in> set evs
              \<and> (Call_GetValue f, VmbErrorSuccess, Out_Int64 v) \<in> set evs
              \<and> GetPixelFormat \<lparr>m_pCamera = Some 7, m_pCameraObserver = Some CameraObserver, m_nWidth = 640,
                   m_nHeight = 480, m_nPixelFormat = 0x02180014\<rparr> = ucast v)))"
proof -
  have run: "use_without_success (simulate capture_fails) [Req_StartUp, Req_AcquireSingleImage ''DEV_1'']
       (ApiController_ctor (mem0\<lparr>m_nWidth := 1, m_nHeight := 2, m_nPixelFormat := 3\<rparr>), rt0) =
     Some (\<lparr>m_pCamera = Some 7, m_pCameraObserver = Some CameraObserver, m_nWidth = 640,
            m_nHeight = 480, m_nPixelFormat = 0x02180014\<rparr>,
           \<lparr>world = \<lparr>polls = 2, format = 0x02180014\<rparr>,
            calls = [(Call_Startup, VmbErrorSuccess, Out_None),
                     (Call_RegisterCameraListObserver CameraObserver, VmbErrorSuccess, Out_None)] @
                    calls_capture_fails\<rparr>)"
    by (simp add: model_simps sim_simps StartUp_def ApiController_ctor_def capture_fails_def
        calls_capture_fails_def)
  have w: "GetWidth \<lparr>m_pCamera = Some 7, m_pCameraObserver = Some CameraObserver, m_nWidth = 640,
            m_nHeight = 480, m_nPixelFormat = 0x02180014\<rparr> = 640"
    by (simp add: GetWidth_def)
  from run w C8_accessors_before_success [OF run] show ?thesis by (intro conjI)
qed

end
